theory Spec2Isabelle
  imports Complex_Main "HOL-Library.Log_Nat"
begin

section \<open>Values of the host language that \<open>converter.py\<close> computes with\<close>

text \<open>
  \<open>forex_python/converter.py\<close> is a thin client: it formats a request, hands it to an HTTP
  transport, decodes a JSON body and multiplies a rate by an amount. The numbers it touches
  are Python \<open>int\<close>, \<open>float\<close> and \<open>decimal.Decimal\<close>; the other values are what a JSON
  document decodes to. All of them are modelled here, together with the library
  operations the source applies to them (\<open>*\<close>, \<open>float(..)\<close>, \<open>Decimal(..)\<close>, truth value,
  \<open>dict.get\<close>).
\<close>

subsection \<open>Exceptions\<close>

text \<open>
  The two exception classes of the module (lines 7--18), and the exceptions of the
  interpreter and of the libraries that the code lets escape. The libraries do not know the
  classes of the module: what the JSON decoder raises is kept apart, by name.
\<close>

datatype error =
    RatesNotAvailableError
  | DecimalFloatMismatchError
  | TransportError        \<comment> \<open>\<open>safe_requests.get\<close> raised (connection failure, timeout)\<close>
  | DecoderRaised string  \<comment> \<open>the JSON decoder raised the exception of that name\<close>
  | AttributeError        \<comment> \<open>\<open>.get\<close> on a value that is not a dict\<close>
  | TypeError
  | OverflowError         \<comment> \<open>an \<open>int\<close> too large to convert to \<open>float\<close>\<close>
  | ValueError            \<comment> \<open>\<open>float\<close> of a signalling NaN\<close>
  | DecimalOverflow       \<comment> \<open>\<open>decimal.Overflow\<close>, trapped by the default context\<close>
  | DecimalInvalidOperation \<comment> \<open>\<open>decimal.InvalidOperation\<close>, trapped by the default context\<close>
  | KeyError

subsection \<open>Numeric values, as mathematical quantities\<close>

datatype numeric = Finite rat | PlusInfinity | MinusInfinity | NotANumber

definition pow2 :: "int \<Rightarrow> rat" where
  "pow2 e = (if 0 \<le> e then 2 ^ nat e else 1 / 2 ^ nat (- e))"

definition pow10 :: "int \<Rightarrow> rat" where
  "pow10 e = (if 0 \<le> e then 10 ^ nat e else 1 / 10 ^ nat (- e))"

definition signed :: "bool \<Rightarrow> rat \<Rightarrow> rat" where
  "signed s q = (if s then - q else q)"

subsection \<open>\<open>decimal.Decimal\<close>\<close>

text \<open>
  A finite \<open>Decimal\<close> is a sign, a coefficient and an exponent (\<open>Decimal("8.50")\<close> is
  \<open>DFin False 850 (-2)\<close>, a different object from \<open>Decimal("8.5")\<close>); the special values
  are the infinities, the quiet NaN and the signalling NaN (the sign and the payload of a
  NaN are left out).
\<close>

datatype decimal = DFin bool nat int | DInf bool | DNaN | DSNaN

fun dec_val :: "decimal \<Rightarrow> numeric" where
  "dec_val (DFin s c e) = Finite (signed s (of_nat c * pow10 e))"
| "dec_val (DInf s) = (if s then MinusInfinity else PlusInfinity)"
| "dec_val DNaN = NotANumber"
| "dec_val DSNaN = NotANumber"

fun dec_is_zero :: "decimal \<Rightarrow> bool" where
  "dec_is_zero (DFin s c e) = (c = 0)"
| "dec_is_zero _ = False"

text \<open>
  The arithmetic context is the default one of the \<open>decimal\<close> module: 28 significant
  digits, \<open>ROUND_HALF_EVEN\<close>, exponents between \<open>-999999\<close> and \<open>999999\<close>, no clamping,
  and the traps \<open>Overflow\<close>, \<open>InvalidOperation\<close>, \<open>DivisionByZero\<close>.
\<close>

definition prec :: int where "prec = 28"
definition Emax :: int where "Emax = 999999"
definition Emin :: int where "Emin = - 999999"
definition Etiny :: int where "Etiny = Emin - prec + 1"
definition Etop :: int where "Etop = Emax - prec + 1"

definition ndigits :: "nat \<Rightarrow> nat" where
  "ndigits c = (if c = 0 then 1 else floorlog 10 c)"

text \<open>
  \<open>Decimal._fix\<close>: round a finite result to the context. The digits below \<open>exp_min\<close> are
  rounded away half-even; a coefficient that grows to \<open>prec + 1\<close> digits by the carry loses
  its last digit.
\<close>

definition dec_fix :: "bool \<Rightarrow> nat \<Rightarrow> int \<Rightarrow> error + decimal" where
  "dec_fix s c e =
    (if c = 0 then Inr (DFin s 0 (min (max e Etiny) Emax))
     else
       let exp_min0 = int (ndigits c) + e - prec in
       if exp_min0 > Etop then Inl DecimalOverflow
       else
         let exp_min = (if exp_min0 < Etiny then Etiny else exp_min0) in
         if e < exp_min then
           let k = nat (exp_min - e);
               q = c div 10 ^ k;
               r = c mod 10 ^ k;
               up = (2 * r > 10 ^ k \<or> (2 * r = 10 ^ k \<and> odd q));
               coeff = (if up then q + 1 else q);
               carry = (up \<and> int (ndigits coeff) > prec);
               coeff' = (if carry then coeff div 10 else coeff);
               exp' = (if carry then exp_min + 1 else exp_min)
           in if exp' > Etop then Inl DecimalOverflow else Inr (DFin s coeff' exp')
         else Inr (DFin s c e))"

text \<open>
  \<open>Decimal.__mul__\<close> on two decimals. A signalling NaN on either side is an invalid
  operation; a quiet NaN gives a quiet NaN.
\<close>

fun dec_mul :: "decimal \<Rightarrow> decimal \<Rightarrow> error + decimal" where
  "dec_mul DSNaN _ = Inl DecimalInvalidOperation"
| "dec_mul _ DSNaN = Inl DecimalInvalidOperation"
| "dec_mul DNaN _ = Inr DNaN"
| "dec_mul _ DNaN = Inr DNaN"
| "dec_mul (DInf s) (DInf t) = Inr (DInf (s \<noteq> t))"
| "dec_mul (DInf s) (DFin t c e) =
     (if c = 0 then Inl DecimalInvalidOperation else Inr (DInf (s \<noteq> t)))"
| "dec_mul (DFin s c e) (DInf t) =
     (if c = 0 then Inl DecimalInvalidOperation else Inr (DInf (s \<noteq> t)))"
| "dec_mul (DFin s c e) (DFin t d f) = dec_fix (s \<noteq> t) (c * d) (e + f)"

text \<open>\<open>Decimal(n)\<close> for an \<open>int\<close>: exact, whatever the context.\<close>

definition dec_of_int :: "int \<Rightarrow> decimal" where
  "dec_of_int n = DFin (n < 0) (nat \<bar>n\<bar>) 0"

subsection \<open>\<open>float\<close>\<close>

text \<open>
  A finite \<open>float\<close> is a sign, a mantissa and a binary exponent, of value
  \<open>\<plusminus> m * 2 ^ e\<close>; one value has several such triples, and floats are compared through
  \<open>float_val\<close>. The format is IEEE binary64: 53 bits of mantissa, exponents from \<open>-1074\<close>
  to \<open>971\<close>, results rounded to nearest, ties to even.
\<close>

datatype pyfloat = FFin bool nat int | FInf bool | FNaN

fun float_val :: "pyfloat \<Rightarrow> numeric" where
  "float_val (FFin s m e) = Finite (signed s (of_nat m * pow2 e))"
| "float_val (FInf s) = (if s then MinusInfinity else PlusInfinity)"
| "float_val FNaN = NotANumber"

fun float_is_zero :: "pyfloat \<Rightarrow> bool" where
  "float_is_zero (FFin s m e) = (m = 0)"
| "float_is_zero _ = False"

text \<open>
  Rounding works on fractions of natural numbers: \<open>round_double s a b\<close> is the binary64
  value nearest to \<open>\<plusminus> a / b\<close>, and \<open>round_scaled s base m e\<close> the one nearest to
  \<open>\<plusminus> m * base ^ e\<close>.
\<close>

definition ilog2 :: "nat \<Rightarrow> nat \<Rightarrow> int" where
  \<comment> \<open>\<open>\<lfloor>log\<^sub>2 (a / b)\<rfloor>\<close> for positive \<open>a\<close> and \<open>b\<close>\<close>
  "ilog2 a b =
    (let d = int (floorlog 2 a) - int (floorlog 2 b)
     in if (if 0 \<le> d then b * 2 ^ nat d \<le> a else b \<le> a * 2 ^ nat (- d)) then d else d - 1)"

definition round_half_even :: "nat \<Rightarrow> nat \<Rightarrow> nat" where
  \<comment> \<open>the integer nearest to \<open>n / d\<close>, the even one of two\<close>
  "round_half_even n d =
    (let f = n div d; r = n mod d
     in if 2 * r < d then f else if d < 2 * r then f + 1
        else if even f then f else f + 1)"

definition round_double :: "bool \<Rightarrow> nat \<Rightarrow> nat \<Rightarrow> pyfloat" where
  "round_double s a b =
    (if a = 0 then FFin s 0 0
     else
       let e = max (- 1074) (ilog2 a b - 52);
           m = (if 0 \<le> e then round_half_even a (b * 2 ^ nat e)
                else round_half_even (a * 2 ^ nat (- e)) b)
       in if 971 < e \<or> (e = 971 \<and> m = 2 ^ 53) then FInf s else FFin s m e)"

definition round_scaled :: "bool \<Rightarrow> nat \<Rightarrow> nat \<Rightarrow> int \<Rightarrow> pyfloat" where
  "round_scaled s base m e =
    (if 0 \<le> e then round_double s (m * base ^ nat e) 1
     else round_double s m (base ^ nat (- e)))"

fun float_mul :: "pyfloat \<Rightarrow> pyfloat \<Rightarrow> pyfloat" where
  "float_mul FNaN _ = FNaN"
| "float_mul _ FNaN = FNaN"
| "float_mul (FInf s) (FInf t) = FInf (s \<noteq> t)"
| "float_mul (FInf s) (FFin t m e) = (if m = 0 then FNaN else FInf (s \<noteq> t))"
| "float_mul (FFin s m e) (FInf t) = (if m = 0 then FNaN else FInf (s \<noteq> t))"
| "float_mul (FFin s m e) (FFin t n f) = round_scaled (s \<noteq> t) 2 (m * n) (e + f)"

text \<open>\<open>float(n)\<close> for an \<open>int\<close>: the nearest double, \<open>OverflowError\<close> beyond the largest one.\<close>

definition float_of_int :: "int \<Rightarrow> error + pyfloat" where
  "float_of_int n =
    (case round_double (n < 0) (nat \<bar>n\<bar>) 1 of
       FInf s \<Rightarrow> Inl OverflowError
     | x \<Rightarrow> Inr x)"

text \<open>
  The \<open>float\<close> nearest to a decimal numeral \<open>\<plusminus> c * 10 ^ e\<close>: what \<open>float(d)\<close> makes of a
  finite \<open>Decimal\<close>.
\<close>

definition float_of_literal :: "bool \<Rightarrow> nat \<Rightarrow> int \<Rightarrow> pyfloat" where
  "float_of_literal s c e = round_scaled s 10 c e"

text \<open>
  \<open>Decimal(x)\<close> for a \<open>float\<close>: the exact value. \<open>as_integer_ratio\<close> gives the fraction
  \<open>n / 2 ^ k\<close> in lowest terms, and the result is \<open>n * 5 ^ k\<close> with exponent \<open>- k\<close>.
\<close>

fun lowest_terms :: "nat \<Rightarrow> nat \<Rightarrow> nat \<times> nat" where
  "lowest_terms n 0 = (n, 0)"
| "lowest_terms n (Suc k) = (if even n then lowest_terms (n div 2) k else (n, Suc k))"

definition as_integer_ratio :: "nat \<Rightarrow> int \<Rightarrow> nat \<times> nat" where
  \<comment> \<open>\<open>(n, k)\<close> with \<open>m * 2 ^ e = n / 2 ^ k\<close>\<close>
  "as_integer_ratio m e =
    (if 0 \<le> e then (m * 2 ^ nat e, 0) else lowest_terms m (nat (- e)))"

fun dec_of_float :: "pyfloat \<Rightarrow> decimal" where
  "dec_of_float (FFin s m e) =
     (let (n, k) = as_integer_ratio m e in DFin s (n * 5 ^ k) (- int k))"
| "dec_of_float (FInf s) = DInf s"
| "dec_of_float FNaN = DNaN"

subsection \<open>Numbers and values\<close>

datatype number = PyInt int | PyFloat pyfloat | PyDecimal decimal


fun num_is_zero :: "number \<Rightarrow> bool" where
  "num_is_zero (PyInt n) = (n = 0)"
| "num_is_zero (PyFloat x) = float_is_zero x"
| "num_is_zero (PyDecimal d) = dec_is_zero d"

fun isinstance_Decimal :: "number \<Rightarrow> bool" where
  "isinstance_Decimal (PyDecimal d) = True"
| "isinstance_Decimal _ = False"


text \<open>
  \<open>a * b\<close> on numbers. \<open>Decimal\<close> accepts an \<open>int\<close> operand and converts it exactly;
  it refuses a \<open>float\<close> on either side, which is the \<open>TypeError\<close> that \<open>convert\<close> catches.
  An \<open>int\<close> meeting a \<open>float\<close> is converted to \<open>float\<close> first.
\<close>

fun lift_float :: "error + pyfloat \<Rightarrow> error + number" where
  "lift_float (Inl err) = Inl err"
| "lift_float (Inr x) = Inr (PyFloat x)"

fun lift_decimal :: "error + decimal \<Rightarrow> error + number" where
  "lift_decimal (Inl err) = Inl err"
| "lift_decimal (Inr d) = Inr (PyDecimal d)"

fun num_mul :: "number \<Rightarrow> number \<Rightarrow> error + number" where
  "num_mul (PyInt a) (PyInt b) = Inr (PyInt (a * b))"
| "num_mul (PyInt a) (PyFloat y) =
     (case float_of_int a of Inl err \<Rightarrow> Inl err | Inr x \<Rightarrow> Inr (PyFloat (float_mul x y)))"
| "num_mul (PyFloat x) (PyInt b) =
     (case float_of_int b of Inl err \<Rightarrow> Inl err | Inr y \<Rightarrow> Inr (PyFloat (float_mul x y)))"
| "num_mul (PyFloat x) (PyFloat y) = Inr (PyFloat (float_mul x y))"
| "num_mul (PyDecimal c) (PyDecimal d) = lift_decimal (dec_mul c d)"
| "num_mul (PyDecimal c) (PyInt b) = lift_decimal (dec_mul c (dec_of_int b))"
| "num_mul (PyInt a) (PyDecimal d) = lift_decimal (dec_mul (dec_of_int a) d)"
| "num_mul (PyDecimal c) (PyFloat y) = Inl TypeError"
| "num_mul (PyFloat x) (PyDecimal d) = Inl TypeError"

text \<open>\<open>Decimal(amount)\<close> and \<open>float(amount)\<close> for a number.\<close>

fun py_Decimal :: "number \<Rightarrow> decimal" where
  "py_Decimal (PyDecimal d) = d"
| "py_Decimal (PyInt n) = dec_of_int n"
| "py_Decimal (PyFloat x) = dec_of_float x"

fun py_float :: "number \<Rightarrow> error + pyfloat" where
  "py_float (PyFloat x) = Inr x"
| "py_float (PyInt n) = float_of_int n"
| "py_float (PyDecimal (DFin s c e)) = Inr (float_of_literal s c e)"
| "py_float (PyDecimal (DInf s)) = Inr (FInf s)"
| "py_float (PyDecimal DNaN) = Inr FNaN"
| "py_float (PyDecimal DSNaN) = Inl ValueError"

text \<open>
  What a JSON document decodes to. A dict is the list of its items, in which a key is
  looked up from the front.
\<close>

datatype pyval =
    PyNone
  | PyBool bool
  | Num number
  | PyStr string
  | PyList "pyval list"
  | PyDict "(string \<times> pyval) list"

text \<open>The truth value that \<open>not rate\<close> and \<open>if currency_dict:\<close> test.\<close>

fun truthy :: "pyval \<Rightarrow> bool" where
  "truthy PyNone = False"
| "truthy (PyBool b) = b"
| "truthy (Num n) = (\<not> num_is_zero n)"
| "truthy (PyStr s) = (s \<noteq> [])"
| "truthy (PyList xs) = (xs \<noteq> [])"
| "truthy (PyDict d) = (d \<noteq> [])"

text \<open>\<open>obj.get(key, default)\<close>: only a dict has the method.\<close>

fun py_get :: "pyval \<Rightarrow> string \<Rightarrow> pyval \<Rightarrow> error + pyval" where
  "py_get (PyDict d) k dflt = Inr (case map_of d k of Some v \<Rightarrow> v | None \<Rightarrow> dflt)"
| "py_get _ k dflt = Inl AttributeError"

text \<open>
  The amount handed to \<open>convert\<close> is a \<open>Decimal\<close> or a \<open>float\<close> (docstring, line 127).
\<close>

datatype amount = DecimalAmount decimal | FloatAmount pyfloat

fun amount_value :: "amount \<Rightarrow> number" where
  "amount_value (DecimalAmount d) = PyDecimal d"
| "amount_value (FloatAmount x) = PyFloat x"

text \<open>
  \<open>rate * amount\<close> where the rate is any decoded value. A \<open>bool\<close> is an \<open>int\<close>; a string
  or a list is repeated by an \<open>int\<close> only and refuses a \<open>Decimal\<close> and a \<open>float\<close>, as \<open>None\<close>
  and a dict do.
\<close>

fun lift_num :: "error + number \<Rightarrow> error + pyval" where
  "lift_num (Inl err) = Inl err"
| "lift_num (Inr n) = Inr (Num n)"

fun py_mul :: "pyval \<Rightarrow> amount \<Rightarrow> error + pyval" where
  "py_mul (Num r) a = lift_num (num_mul r (amount_value a))"
| "py_mul (PyBool b) a = lift_num (num_mul (PyInt (if b then 1 else 0)) (amount_value a))"
| "py_mul _ _ = Inl TypeError"

section \<open>The rate client: \<open>Common\<close> and \<open>CurrencyRates\<close>\<close>

subsection \<open>Dates, requests, responses\<close>

text \<open>
  \<open>date_obj\<close> is a \<open>datetime\<close> (docstring, line 67); only its calendar date is read. The
  \<open>datetime\<close> type keeps \<open>1 \<le> year \<le> 9999\<close>, \<open>1 \<le> month \<le> 12\<close> and \<open>1 \<le> day \<le> 31\<close>.
\<close>

record date =
  year :: nat
  month :: nat
  day :: nat

definition valid_date :: "date \<Rightarrow> bool" where
  "valid_date d \<longleftrightarrow>
     1 \<le> year d \<and> year d \<le> 9999 \<and> 1 \<le> month d \<and> month d \<le> 12 \<and> 1 \<le> day d \<and> day d \<le> 31"

definition digit_char :: "nat \<Rightarrow> char" where
  "digit_char n = ''0123456789'' ! (n mod 10)"

fun zero_padded :: "nat \<Rightarrow> nat \<Rightarrow> string" where
  \<comment> \<open>the last \<open>w\<close> decimal digits of \<open>n\<close>, zeros in front\<close>
  "zero_padded 0 n = []"
| "zero_padded (Suc w) n = zero_padded w (n div 10) @ [digit_char (n mod 10)]"

definition decimal_numeral :: "nat \<Rightarrow> string" where
  \<comment> \<open>\<open>n\<close> in decimal, without zeros in front\<close>
  "decimal_numeral n = zero_padded (ndigits n) n"

text \<open>
  \<open>date_obj.strftime('%Y-%m-%d')\<close>. The interpreter hands the format to the \<open>strftime\<close> of
  the C library, which writes the month and the day on two digits and, in the GNU C library
  (CPython 3.11 on Linux), the year as a plain decimal number: \<open>999-01-02\<close> for the second
  of January 999. From the year 1000 on no library differs.
\<close>

definition strftime_Ymd :: "date \<Rightarrow> string" where
  "strftime_Ymd d =
     decimal_numeral (year d) @ ''-'' @ zero_padded 2 (month d) @ ''-'' @ zero_padded 2 (day d)"

record request =
  url :: string
  params :: "(string \<times> string) list"
  timeout :: nat

text \<open>
  The JSON decoder is a library outside the module. \<open>_decode_rates\<close> calls it in two ways
  on the text of the response, \<open>response.json()\<close> and
  \<open>json.loads(response.text, use_decimal=True)\<close>, and a response carries, besides its
  status, what each call makes of its text: the decoded value, or the name of the exception
  the decoder raises (\<open>JSONDecodeError\<close> on a text that is not JSON,
  \<open>decimal.InvalidOperation\<close> or \<open>ValueError\<close> on a number literal out of range,
  \<open>RecursionError\<close> on a nesting too deep).
\<close>

record response =
  status_code :: int
  json :: "string + pyval"
  loads_use_decimal :: "string + pyval"

text \<open>
  The transport \<open>safe_requests.get\<close> is outside the module: a function from the request to
  the response, or to \<open>None\<close> when it raises instead of answering.
\<close>

type_synonym transport = "request \<Rightarrow> response option"

text \<open>
  An operation returns the requests it has sent, in order, and either the exception it
  raised (\<open>Inl\<close>) or its result (\<open>Inr\<close>).
\<close>

type_synonym 'a outcome = "request list \<times> (error + 'a)"

subsection \<open>\<open>Common\<close> (lines 21--58)\<close>

record common =
  force_decimal :: bool

definition source_url :: string where
  "source_url = ''https://theforexapi.com/api/''"

definition get_date_string :: "date option \<Rightarrow> string" where
  "get_date_string date_obj =
     (case date_obj of None \<Rightarrow> ''latest'' | Some d \<Rightarrow> strftime_Ymd d)"

definition decode_rates :: "common \<Rightarrow> response \<Rightarrow> bool \<Rightarrow> string option \<Rightarrow> error + pyval" where
  "decode_rates self resp use_decimal date_str =
     (case (if force_decimal self \<or> use_decimal then loads_use_decimal resp else json resp) of
        Inl name \<Rightarrow> Inl (DecoderRaised name)
      | Inr decoded_data \<Rightarrow> py_get decoded_data ''rates'' (PyDict []))"

definition get_decoded_rate ::
    "common \<Rightarrow> response \<Rightarrow> string \<Rightarrow> bool \<Rightarrow> string option \<Rightarrow> error + pyval" where
  "get_decoded_rate self resp dest_cur use_decimal date_str =
     (case decode_rates self resp use_decimal date_str of
        Inl err \<Rightarrow> Inl err
      | Inr rates \<Rightarrow> py_get rates dest_cur PyNone)"

subsection \<open>\<open>CurrencyRates\<close> (lines 61--169)\<close>

definition get_rates :: "common \<Rightarrow> transport \<Rightarrow> string \<Rightarrow> date option \<Rightarrow> pyval outcome" where
  "get_rates self fetch base_cur date_obj =
     (let date_str = get_date_string date_obj;
          payload = [(''base'', base_cur), (''rtype'', ''fpy'')];
          req = \<lparr>url = source_url @ date_str, params = payload, timeout = 60\<rparr>
      in case fetch req of
           None \<Rightarrow> ([req], Inl TransportError)
         | Some resp \<Rightarrow>
             ([req],
              if status_code resp = 200 then decode_rates self resp False (Some date_str)
              else Inl RatesNotAvailableError))"

definition get_rate ::
    "common \<Rightarrow> transport \<Rightarrow> string \<Rightarrow> string \<Rightarrow> date option \<Rightarrow> pyval outcome" where
  "get_rate self fetch base_cur dest_cur date_obj =
     (if base_cur = dest_cur then
        (if force_decimal self then ([], Inr (Num (PyDecimal (dec_of_int 1))))
         else ([], Inr (Num (PyFloat (FFin False 1 0)))))
      else
        let date_str = get_date_string date_obj;
            payload = [(''base'', base_cur), (''symbols'', dest_cur), (''rtype'', ''fpy'')];
            req = \<lparr>url = source_url @ date_str, params = payload, timeout = 60\<rparr>
        in case fetch req of
             None \<Rightarrow> ([req], Inl TransportError)
           | Some resp \<Rightarrow>
               ([req],
                if status_code resp = 200 then
                  (case get_decoded_rate self resp dest_cur False (Some date_str) of
                     Inl err \<Rightarrow> Inl err
                   | Inr rate \<Rightarrow>
                       if \<not> truthy rate then Inl RatesNotAvailableError else Inr rate)
                else Inl RatesNotAvailableError))"

definition multiply :: "pyval \<Rightarrow> amount \<Rightarrow> error + pyval" where
  \<comment> \<open>the \<open>try\<close> block of lines 163--168\<close>
  "multiply rate amount =
     (case py_mul rate amount of
        Inl TypeError \<Rightarrow> Inl DecimalFloatMismatchError
      | Inl err \<Rightarrow> Inl err
      | Inr converted_amount \<Rightarrow> Inr converted_amount)"

definition convert ::
    "common \<Rightarrow> transport \<Rightarrow> string \<Rightarrow> string \<Rightarrow> amount \<Rightarrow> date option \<Rightarrow> pyval outcome" where
  "convert self fetch base_cur dest_cur amount date_obj =
     (let use_decimal =
            (if isinstance_Decimal (amount_value amount) then True else force_decimal self)
      in
        if base_cur = dest_cur then
          (if use_decimal then ([], Inr (Num (PyDecimal (py_Decimal (amount_value amount)))))
           else ([], lift_num (lift_float (py_float (amount_value amount)))))
        else
          let date_str = get_date_string date_obj;
              payload = [(''base'', base_cur), (''symbols'', dest_cur), (''rtype'', ''fpy'')];
              req = \<lparr>url = source_url @ date_str, params = payload, timeout = 60\<rparr>
          in case fetch req of
               None \<Rightarrow> ([req], Inl TransportError)
             | Some resp \<Rightarrow>
                 ([req],
                  if status_code resp = 200 then
                    (case get_decoded_rate self resp dest_cur use_decimal (Some date_str) of
                       Inl err \<Rightarrow> Inl err
                     | Inr rate \<Rightarrow>
                         if \<not> truthy rate then Inl RatesNotAvailableError
                         else multiply rate amount)
                  else Inl RatesNotAvailableError))"

section \<open>The currency directory: \<open>CurrencyCodes\<close> (lines 179--236)\<close>

text \<open>
  The table is \<open>raw_data/currencies.json\<close>, a list of dicts with string fields, read on
  the first access and kept in the private attribute.
\<close>

type_synonym currency_dict = "(string \<times> string) list"

record currency_codes =
  cached_currency_data :: "currency_dict list option"

definition currency_data ::
    "currency_dict list \<Rightarrow> currency_codes \<Rightarrow> currency_dict list \<times> currency_codes" where
  \<comment> \<open>the property of lines 192--200; the first argument is the content of the file\<close>
  "currency_data file self =
     (case cached_currency_data self of
        None \<Rightarrow> (file, self\<lparr>cached_currency_data := Some file\<rparr>)
      | Some table \<Rightarrow> (table, self))"

text \<open>
  \<open>next((item for item in table if item[key] == wanted), None)\<close>: the generator stops at
  the first match; \<open>item[key]\<close> raises \<open>KeyError\<close> on an item without the key.
\<close>

fun next_item :: "string \<Rightarrow> string \<Rightarrow> currency_dict list \<Rightarrow> error + currency_dict option" where
  "next_item key wanted [] = Inr None"
| "next_item key wanted (item # items) =
     (case map_of item key of
        None \<Rightarrow> Inl KeyError
      | Some v \<Rightarrow> if v = wanted then Inr (Some item) else next_item key wanted items)"

definition get_data ::
    "currency_dict list \<Rightarrow> currency_codes \<Rightarrow> string
       \<Rightarrow> (error + currency_dict option) \<times> currency_codes" where
  "get_data file self currency_code =
     (let (table, self') = currency_data file self
      in (next_item ''cc'' currency_code table, self'))"

definition get_data_from_symbol ::
    "currency_dict list \<Rightarrow> currency_codes \<Rightarrow> string
       \<Rightarrow> (error + currency_dict option) \<times> currency_codes" where
  "get_data_from_symbol file self symbol =
     (let (table, self') = currency_data file self
      in (next_item ''symbol'' symbol table, self'))"

fun field_of :: "string \<Rightarrow> error + currency_dict option \<Rightarrow> error + string option" where
  \<comment> \<open>\<open>if currency_dict: return currency_dict.get(field)\<close>, else \<open>None\<close>\<close>
  "field_of field (Inl err) = Inl err"
| "field_of field (Inr None) = Inr None"
| "field_of field (Inr (Some currency_dict)) =
     (if currency_dict \<noteq> [] then Inr (map_of currency_dict field) else Inr None)"

definition get_symbol ::
    "currency_dict list \<Rightarrow> currency_codes \<Rightarrow> string \<Rightarrow> (error + string option) \<times> currency_codes" where
  "get_symbol file self currency_code =
     (let (currency_dict, self') = get_data file self currency_code
      in (field_of ''symbol'' currency_dict, self'))"

definition get_currency_name ::
    "currency_dict list \<Rightarrow> currency_codes \<Rightarrow> string \<Rightarrow> (error + string option) \<times> currency_codes" where
  "get_currency_name file self currency_code =
     (let (currency_dict, self') = get_data file self currency_code
      in (field_of ''name'' currency_dict, self'))"

definition get_currency_code_from_symbol ::
    "currency_dict list \<Rightarrow> currency_codes \<Rightarrow> string \<Rightarrow> (error + string option) \<times> currency_codes" where
  "get_currency_code_from_symbol file self symbol =
     (let (currency_dict, self') = get_data_from_symbol file self symbol
      in (field_of ''cc'' currency_dict, self'))"

section \<open>Notions used to state the properties\<close>

text \<open>
  The entry of a currency in a decoded payload: its item in the dict under \<open>rates\<close>, when
  the payload has that item and it is a dict.
\<close>

fun rate_entry :: "(string \<times> pyval) list \<Rightarrow> string \<Rightarrow> pyval option" where
  "rate_entry payload dest_cur =
     (case map_of payload ''rates'' of
        Some (PyDict rates) \<Rightarrow> map_of rates dest_cur
      | _ \<Rightarrow> None)"

fun is_dict :: "pyval \<Rightarrow> bool" where
  "is_dict (PyDict d) = True"
| "is_dict _ = False"

fun is_number :: "pyval \<Rightarrow> bool" where
  "is_number (Num n) = True"
| "is_number _ = False"

fun is_zero :: "pyval \<Rightarrow> bool" where
  \<comment> \<open>a number that is zero, of either sign and any exponent\<close>
  "is_zero (Num n) = num_is_zero n"
| "is_zero _ = False"

text \<open>A transport that answers every request with the same response.\<close>

definition answering :: "response \<Rightarrow> transport" where
  "answering resp req = Some resp"

text \<open>A transport that raises on every request.\<close>

definition no_answer :: transport where
  "no_answer req = None"

text \<open>
  The response of status 200 on whose text the two calls of the decoder give the two
  values.
\<close>

definition ok_response :: "pyval \<Rightarrow> pyval \<Rightarrow> response" where
  "ok_response plain exact = \<lparr>status_code = 200, json = Inr plain, loads_use_decimal = Inr exact\<rparr>"

text \<open>Reading a string of decimal digits back as a number.\<close>

definition digit_value :: "char \<Rightarrow> nat option" where
  "digit_value c =
     (if c \<in> set ''0123456789'' then Some (of_char c - 48) else None)"

fun read_digits :: "nat \<Rightarrow> string \<Rightarrow> nat option" where
  "read_digits acc [] = Some acc"
| "read_digits acc (c # cs) =
     (case digit_value c of None \<Rightarrow> None | Some v \<Rightarrow> read_digits (10 * acc + v) cs)"

text \<open>The first item of the table with a given value under a given key.\<close>

definition first_match :: "string \<Rightarrow> string \<Rightarrow> currency_dict list \<Rightarrow> currency_dict option" where
  "first_match key wanted table = find (\<lambda>item. map_of item key = Some wanted) table"

definition has_key :: "string \<Rightarrow> currency_dict \<Rightarrow> bool" where
  "has_key key item = (map_of item key \<noteq> None)"

section \<open>Decoding\<close>

lemma py_get_cases: "py_get v k dflt = Inl AttributeError \<or> (\<exists>w. py_get v k dflt = Inr w)"
  by (cases v) simp_all

lemma decode_rates_errors:
  "decode_rates self resp ud ds = Inl err \<Longrightarrow>
   (\<exists>name. err = DecoderRaised name) \<or> err = AttributeError"
  using py_get_cases [of _ "''rates''" "PyDict []"]
  by (auto simp: decode_rates_def split: sum.splits if_splits) (metis Inl_inject Inl_Inr_False)+

lemma get_decoded_rate_errors:
  "get_decoded_rate self resp dest ud ds = Inl err \<Longrightarrow>
   (\<exists>name. err = DecoderRaised name) \<or> err = AttributeError"
  unfolding get_decoded_rate_def
  using decode_rates_errors [of self resp ud ds] py_get_cases
  by (auto split: sum.splits) (metis Inl_inject Inl_Inr_False)+

lemma decode_rates_dict:
  "(if force_decimal self \<or> ud then loads_use_decimal resp else json resp) = Inr (PyDict payload) \<Longrightarrow>
   decode_rates self resp ud ds =
     Inr (case map_of payload ''rates'' of None \<Rightarrow> PyDict [] | Some r \<Rightarrow> r)"
  by (simp add: decode_rates_def)

lemma get_decoded_rate_entry:
  assumes "(if force_decimal self \<or> ud then loads_use_decimal resp else json resp)
             = Inr (PyDict payload)"
    and "map_of payload ''rates'' = None \<or> (\<exists>r. map_of payload ''rates'' = Some r \<and> is_dict r)"
  shows "get_decoded_rate self resp dest_cur ud ds =
           Inr (case rate_entry payload dest_cur of None \<Rightarrow> PyNone | Some v \<Rightarrow> v)"
proof (cases "map_of payload ''rates''")
  case None
  then show ?thesis
    using decode_rates_dict [OF assms(1), of ds] by (simp add: get_decoded_rate_def)
next
  case (Some r)
  with assms(2) obtain rates where "r = PyDict rates" by (cases r) auto
  then show ?thesis
    using decode_rates_dict [OF assms(1), of ds] Some by (simp add: get_decoded_rate_def)
qed

subsection \<open>Evaluation of the arithmetic on numerals\<close>

text \<open>
  The \<open>float\<close> nearest to \<open>0.85\<close> is \<open>7656119366529843 * 2 ^ (-53)\<close>; the examples below
  use it where the plain decoding holds that rate.
\<close>

lemmas float_eval = float_of_literal_def round_scaled_def round_double_def ilog2_def
  round_half_even_def compute_floorlog Let_def

lemma float_of_literal_0_85:
  "float_of_literal False 85 (- 2) = FFin False 7656119366529843 (- 53)"
  by (simp add: float_eval)


section \<open>The rate operations\<close>

subsection \<open>The request each operation sends, and what it does with the answer\<close>

lemma issued_request_get_rate:
  "base_cur \<noteq> dest_cur \<Longrightarrow>
   fst (get_rate self fetch base_cur dest_cur date_obj) =
     [\<lparr>url = source_url @ get_date_string date_obj,
       params = [(''base'', base_cur), (''symbols'', dest_cur), (''rtype'', ''fpy'')],
       timeout = 60\<rparr>]"
  by (simp add: get_rate_def Let_def split: option.splits)

lemma issued_request_get_rates:
  "fst (get_rates self fetch base_cur date_obj) =
     [\<lparr>url = source_url @ get_date_string date_obj,
       params = [(''base'', base_cur), (''rtype'', ''fpy'')],
       timeout = 60\<rparr>]"
  by (simp add: get_rates_def Let_def split: option.splits)

lemma issued_request_convert:
  "base_cur \<noteq> dest_cur \<Longrightarrow>
   fst (convert self fetch base_cur dest_cur amount date_obj) =
     [\<lparr>url = source_url @ get_date_string date_obj,
       params = [(''base'', base_cur), (''symbols'', dest_cur), (''rtype'', ''fpy'')],
       timeout = 60\<rparr>]"
  by (simp add: convert_def Let_def split: option.splits)

lemma get_rate_on_ok:
  assumes "base_cur \<noteq> dest_cur"
    and "fst (get_rate self fetch base_cur dest_cur date_obj) = [req]"
    and "fetch req = Some resp" and "status_code resp = 200"
  shows "snd (get_rate self fetch base_cur dest_cur date_obj) =
     (case get_decoded_rate self resp dest_cur False (Some (get_date_string date_obj)) of
        Inl err \<Rightarrow> Inl err
      | Inr rate \<Rightarrow> if truthy rate then Inr rate else Inl RatesNotAvailableError)"
proof -
  have "req = \<lparr>url = source_url @ get_date_string date_obj,
       params = [(''base'', base_cur), (''symbols'', dest_cur), (''rtype'', ''fpy'')],
       timeout = 60\<rparr>"
    using assms(2) issued_request_get_rate [OF assms(1), of self fetch date_obj] by simp
  then show ?thesis
    using assms(1,3,4) by (simp add: get_rate_def Let_def split: sum.splits)
qed

lemma convert_on_ok:
  assumes "base_cur \<noteq> dest_cur"
    and "fst (convert self fetch base_cur dest_cur amount date_obj) = [req]"
    and "fetch req = Some resp" and "status_code resp = 200"
  shows "snd (convert self fetch base_cur dest_cur amount date_obj) =
     (case get_decoded_rate self resp dest_cur
             (isinstance_Decimal (amount_value amount) \<or> force_decimal self)
             (Some (get_date_string date_obj)) of
        Inl err \<Rightarrow> Inl err
      | Inr rate \<Rightarrow>
          if truthy rate then multiply rate amount
          else Inl RatesNotAvailableError)"
proof -
  have "req = \<lparr>url = source_url @ get_date_string date_obj,
       params = [(''base'', base_cur), (''symbols'', dest_cur), (''rtype'', ''fpy'')],
       timeout = 60\<rparr>"
    using assms(2) issued_request_convert [OF assms(1), of self fetch amount date_obj] by simp
  then show ?thesis
    using assms(1,3,4) by (auto simp: convert_def Let_def split: sum.splits)
qed

lemma get_rates_on_ok:
  assumes "fst (get_rates self fetch base_cur date_obj) = [req]"
    and "fetch req = Some resp" and "status_code resp = 200"
  shows "snd (get_rates self fetch base_cur date_obj) =
     decode_rates self resp False (Some (get_date_string date_obj))"
proof -
  have "req = \<lparr>url = source_url @ get_date_string date_obj,
       params = [(''base'', base_cur), (''rtype'', ''fpy'')], timeout = 60\<rparr>"
    using assms(1) issued_request_get_rates [of self fetch base_cur date_obj] by simp
  then show ?thesis
    using assms(2,3) by (simp add: get_rates_def Let_def)
qed

subsection \<open>A status other than 200\<close>

text \<open>
  Claim C1. Whatever the base currency, the destination, the amount and the date: when the
  transport answers the request that an operation has sent with a status other than 200,
  the operation raises \<open>RatesNotAvailableError\<close>. This holds for \<open>get_rates\<close>, \<open>get_rate\<close>
  and \<open>convert\<close>; an outcome is an exception or a result, so nothing is returned besides.
\<close>

theorem non_200_raises_RatesNotAvailableError:
  assumes "fetch req = Some resp" and "status_code resp \<noteq> 200"
  shows "(req \<in> set (fst (get_rates self fetch base_cur date_obj)) \<longrightarrow>
           snd (get_rates self fetch base_cur date_obj) = Inl RatesNotAvailableError)
       \<and> (req \<in> set (fst (get_rate self fetch base_cur dest_cur date_obj)) \<longrightarrow>
           snd (get_rate self fetch base_cur dest_cur date_obj) = Inl RatesNotAvailableError)
       \<and> (req \<in> set (fst (convert self fetch base_cur dest_cur amount date_obj)) \<longrightarrow>
           snd (convert self fetch base_cur dest_cur amount date_obj) = Inl RatesNotAvailableError)"
  using assms
  by (auto simp: get_rates_def get_rate_def convert_def Let_def split: option.splits if_splits)

theorem non_200_raises_RatesNotAvailableError_witness:
  "snd (get_rates \<lparr>force_decimal = False\<rparr>
          (answering
             \<lparr>status_code = 503, json = Inl ''JSONDecodeError'',
               loads_use_decimal = Inl ''JSONDecodeError''\<rparr>)
          ''USD'' None)
     = Inl RatesNotAvailableError
   \<and> snd (get_rate \<lparr>force_decimal = False\<rparr>
          (answering
             \<lparr>status_code = 503, json = Inl ''JSONDecodeError'',
               loads_use_decimal = Inl ''JSONDecodeError''\<rparr>)
          ''USD'' ''EUR'' None)
     = Inl RatesNotAvailableError
   \<and> snd (convert \<lparr>force_decimal = True\<rparr>
          (answering
             \<lparr>status_code = 503, json = Inl ''JSONDecodeError'',
               loads_use_decimal = Inl ''JSONDecodeError''\<rparr>)
          ''USD'' ''EUR'' (DecimalAmount (DFin False 10 0)) None)
     = Inl RatesNotAvailableError"
proof -
  let ?resp = "\<lparr>status_code = 503, json = Inl ''JSONDecodeError'',
                 loads_use_decimal = Inl ''JSONDecodeError''\<rparr>"
  have a: "answering ?resp r = Some ?resp" for r by (simp add: answering_def)
  have s: "status_code ?resp \<noteq> 200" by simp
  let ?r1 = "\<lparr>url = source_url @ ''latest'', params = [(''base'', ''USD''), (''rtype'', ''fpy'')],
             timeout = 60\<rparr>"
  let ?r2 = "\<lparr>url = source_url @ ''latest'',
             params = [(''base'', ''USD''), (''symbols'', ''EUR''), (''rtype'', ''fpy'')],
             timeout = 60\<rparr>"
  show ?thesis
    using non_200_raises_RatesNotAvailableError [where fetch = "answering ?resp" and resp = ?resp
        and req = ?r1 and self = "\<lparr>force_decimal = False\<rparr>" and base_cur = "''USD''"
        and date_obj = None, OF a s]
      non_200_raises_RatesNotAvailableError [where fetch = "answering ?resp" and resp = ?resp
        and req = ?r2 and self = "\<lparr>force_decimal = False\<rparr>" and base_cur = "''USD''"
        and dest_cur = "''EUR''" and date_obj = None, OF a s]
      non_200_raises_RatesNotAvailableError [where fetch = "answering ?resp" and resp = ?resp
        and req = ?r2 and self = "\<lparr>force_decimal = True\<rparr>" and base_cur = "''USD''"
        and dest_cur = "''EUR''" and amount = "DecimalAmount (DFin False 10 0)"
        and date_obj = None, OF a s]
    by (simp add: issued_request_get_rates issued_request_get_rate issued_request_convert
        get_date_string_def)
qed

subsection \<open>The single rate of \<open>get_rate\<close>\<close>

lemma truthy_number: "is_number v \<Longrightarrow> truthy v = (\<not> is_zero v)"
  by (cases v) auto

text \<open>
  Claim C2. Base and destination differ and the transport answers with status 200 and a
  text that decodes to a dict whose item \<open>rates\<close>, when there is one, is a dict in which the
  entry of the destination, when there is one, is a number (the payload of section 3 of the
  specification). Then \<open>get_rate\<close> returns the decoded entry when it is present and not
  zero, and raises \<open>RatesNotAvailableError\<close> when it is absent or zero.
\<close>

theorem get_rate_present_nonzero:
  assumes "base_cur \<noteq> dest_cur"
    and "fst (get_rate self fetch base_cur dest_cur date_obj) = [req]"
    and "fetch req = Some resp" and "status_code resp = 200"
    and "(if force_decimal self then loads_use_decimal resp else json resp) = Inr (PyDict payload)"
    and "map_of payload ''rates'' = None \<or> (\<exists>r. map_of payload ''rates'' = Some r \<and> is_dict r)"
    and "\<forall>v. rate_entry payload dest_cur = Some v \<longrightarrow> is_number v"
  shows "snd (get_rate self fetch base_cur dest_cur date_obj) =
     (case rate_entry payload dest_cur of
        None \<Rightarrow> Inl RatesNotAvailableError
      | Some rate \<Rightarrow> if is_zero rate then Inl RatesNotAvailableError else Inr rate)"
proof -
  have dec: "get_decoded_rate self resp dest_cur False (Some (get_date_string date_obj)) =
               Inr (case rate_entry payload dest_cur of None \<Rightarrow> PyNone | Some v \<Rightarrow> v)"
    using get_decoded_rate_entry [of self False resp payload dest_cur] assms(5,6) by simp
  show ?thesis
  proof (cases "rate_entry payload dest_cur")
    case None
    then show ?thesis using get_rate_on_ok [OF assms(1-4)] dec by simp
  next
    case (Some rate)
    then have "is_number rate" using assms(7) by simp
    then show ?thesis
      using get_rate_on_ok [OF assms(1-4)] dec Some truthy_number [of rate] by simp
  qed
qed

theorem get_rate_present_nonzero_witness:
  "snd (get_rate \<lparr>force_decimal = False\<rparr>
          (answering (ok_response
             (PyDict [(''rates'',
                PyDict [(''EUR'', Num (PyFloat (FFin False 7656119366529843 (- 53))))])])
             (PyDict [(''rates'', PyDict [(''EUR'', Num (PyDecimal (DFin False 85 (- 2))))])])))
          ''USD'' ''EUR'' None)
     = Inr (Num (PyFloat (FFin False 7656119366529843 (- 53))))
   \<and> snd (get_rate \<lparr>force_decimal = False\<rparr>
          (answering (ok_response (PyDict [(''rates'', PyDict [])])
             (PyDict [(''rates'', PyDict [])]))) ''USD'' ''EUR'' None)
     = Inl RatesNotAvailableError
   \<and> snd (get_rate \<lparr>force_decimal = True\<rparr>
          (answering (ok_response
             (PyDict [(''rates'', PyDict [(''EUR'', Num (PyFloat (FFin False 0 0)))])])
             (PyDict [(''rates'', PyDict [(''EUR'', Num (PyDecimal (DFin False 0 (- 1))))])])))
          ''USD'' ''EUR'' None)
     = Inl RatesNotAvailableError"
proof -
  let ?req = "\<lparr>url = source_url @ ''latest'',
                params = [(''base'', ''USD''), (''symbols'', ''EUR''), (''rtype'', ''fpy'')],
                timeout = 60\<rparr>"
  have ne: "''USD'' \<noteq> ''EUR''" by simp
  have issued: "fst (get_rate self fetch ''USD'' ''EUR'' None) = [?req]" for self fetch
    by (simp add: issued_request_get_rate get_date_string_def)
  have answer: "answering resp ?req = Some resp" for resp
    by (simp add: answering_def)
  let ?p1 = "[(''rates'', PyDict [(''EUR'', Num (PyFloat (FFin False 7656119366529843 (- 53))))])]"
  let ?e1 = "PyDict [(''rates'', PyDict [(''EUR'', Num (PyDecimal (DFin False 85 (- 2))))])]"
  let ?p2 = "[(''rates'', PyDict [])]"
  let ?p3 = "[(''rates'', PyDict [(''EUR'', Num (PyDecimal (DFin False 0 (- 1))))])]"
  let ?f3 = "PyDict [(''rates'', PyDict [(''EUR'', Num (PyFloat (FFin False 0 0)))])]"
  have 1: "snd (get_rate \<lparr>force_decimal = False\<rparr> (answering (ok_response (PyDict ?p1) ?e1))
             ''USD'' ''EUR'' None) = Inr (Num (PyFloat (FFin False 7656119366529843 (- 53))))"
    using get_rate_present_nonzero [where self = "\<lparr>force_decimal = False\<rparr>"
        and fetch = "answering (ok_response (PyDict ?p1) ?e1)" and base_cur = "''USD''"
        and dest_cur = "''EUR''" and date_obj = None and req = ?req
        and resp = "ok_response (PyDict ?p1) ?e1" and payload = ?p1]
      issued answer
    by (simp add: ok_response_def)
  have 2: "snd (get_rate \<lparr>force_decimal = False\<rparr>
             (answering (ok_response (PyDict ?p2) (PyDict ?p2))) ''USD'' ''EUR'' None)
             = Inl RatesNotAvailableError"
    using get_rate_present_nonzero [where self = "\<lparr>force_decimal = False\<rparr>"
        and fetch = "answering (ok_response (PyDict ?p2) (PyDict ?p2))" and base_cur = "''USD''"
        and dest_cur = "''EUR''" and date_obj = None and req = ?req
        and resp = "ok_response (PyDict ?p2) (PyDict ?p2)" and payload = ?p2]
      issued answer
    by (simp add: ok_response_def)
  have 3: "snd (get_rate \<lparr>force_decimal = True\<rparr> (answering (ok_response ?f3 (PyDict ?p3)))
             ''USD'' ''EUR'' None) = Inl RatesNotAvailableError"
    using get_rate_present_nonzero [where self = "\<lparr>force_decimal = True\<rparr>"
        and fetch = "answering (ok_response ?f3 (PyDict ?p3))" and base_cur = "''USD''"
        and dest_cur = "''EUR''" and date_obj = None and req = ?req
        and resp = "ok_response ?f3 (PyDict ?p3)" and payload = ?p3]
      issued answer
    by (simp add: ok_response_def)
  from 1 2 3 show ?thesis by blast
qed

text \<open>
  The test of line 116 is the truth value of the entry, so an entry that is not a number
  and is false (\<open>None\<close>, \<open>False\<close>, an empty string, list or dict) is refused like a zero.
\<close>

lemma get_rate_false_entry:
  assumes "base_cur \<noteq> dest_cur"
    and "fst (get_rate self fetch base_cur dest_cur date_obj) = [req]"
    and "fetch req = Some resp" and "status_code resp = 200"
    and "get_decoded_rate self resp dest_cur False (Some (get_date_string date_obj)) = Inr rate"
    and "\<not> truthy rate"
  shows "snd (get_rate self fetch base_cur dest_cur date_obj) = Inl RatesNotAvailableError"
  using get_rate_on_ok [OF assms(1-4)] assms(5,6) by simp

subsection \<open>Base and destination equal in \<open>get_rate\<close>\<close>

text \<open>
  Claim C3. For every currency code and every date, \<open>get_rate\<close> with the code as base and as
  destination sends no request and returns one: \<open>Decimal(1)\<close> for a client built with
  \<open>force_decimal\<close>, the float \<open>1.0\<close> otherwise.
\<close>

theorem get_rate_same_currency:
  "fst (get_rate self fetch c c date_obj) = []
   \<and> snd (get_rate self fetch c c date_obj) =
       Inr (Num (if force_decimal self then PyDecimal (DFin False 1 0)
                 else PyFloat (FFin False 1 0)))
   \<and> dec_val (DFin False 1 0) = Finite 1
   \<and> float_val (FFin False 1 0) = Finite 1"
  by (simp add: get_rate_def dec_of_int_def signed_def pow10_def pow2_def)

theorem get_rate_same_currency_witness:
  "get_rate \<lparr>force_decimal = True\<rparr> no_answer ''USD'' ''USD'' None =
     ([], Inr (Num (PyDecimal (DFin False 1 0))))
   \<and> get_rate \<lparr>force_decimal = False\<rparr> no_answer ''USD'' ''USD''
         (Some \<lparr>year = 2021, month = 1, day = 1\<rparr>) =
     ([], Inr (Num (PyFloat (FFin False 1 0))))"
  using get_rate_same_currency [of "\<lparr>force_decimal = True\<rparr>" no_answer "''USD''" None]
    get_rate_same_currency [of "\<lparr>force_decimal = False\<rparr>" no_answer "''USD''"
      "Some \<lparr>year = 2021, month = 1, day = 1\<rparr>"]
  by (simp add: prod_eq_iff)

subsection \<open>The rates of \<open>get_rates\<close>\<close>

text \<open>
  Claim C7. When the text of the response decodes to a dict, \<open>_decode_rates\<close> gives the
  item \<open>rates\<close> of the dict, and the empty dict, not an error, when the dict has no such
  item; so \<open>get_rates\<close>, when the transport answers with status 200 and such a text, returns
  the decoded rates, and the empty dict when the item is missing.
\<close>

theorem get_rates_extracts_rates:
  assumes "(if force_decimal self \<or> use_decimal then loads_use_decimal resp else json resp)
             = Inr (PyDict payload)"
  shows "decode_rates self resp use_decimal date_str =
           Inr (case map_of payload ''rates'' of None \<Rightarrow> PyDict [] | Some rates \<Rightarrow> rates)
       \<and> (\<not> use_decimal \<and> fst (get_rates self fetch base_cur date_obj) = [req]
            \<and> fetch req = Some resp \<and> status_code resp = 200 \<longrightarrow>
          snd (get_rates self fetch base_cur date_obj) =
            Inr (case map_of payload ''rates'' of None \<Rightarrow> PyDict [] | Some rates \<Rightarrow> rates))"
proof -
  have dec: "decode_rates self resp use_decimal ds =
           Inr (case map_of payload ''rates'' of None \<Rightarrow> PyDict [] | Some rates \<Rightarrow> rates)" for ds
    using decode_rates_dict [OF assms] .
  have "snd (get_rates self fetch base_cur date_obj) =
            Inr (case map_of payload ''rates'' of None \<Rightarrow> PyDict [] | Some rates \<Rightarrow> rates)"
    if "\<not> use_decimal" and "fst (get_rates self fetch base_cur date_obj) = [req]"
      and "fetch req = Some resp" and "status_code resp = 200"
    using get_rates_on_ok [OF that(2-4)] dec that(1) by simp
  with dec show ?thesis by blast
qed

theorem get_rates_extracts_rates_witness:
  "snd (get_rates \<lparr>force_decimal = False\<rparr>
          (answering (ok_response (PyDict [(''base'', PyStr ''USD'')])
             (PyDict [(''base'', PyStr ''USD'')]))) ''USD'' None)
     = Inr (PyDict [])
   \<and> snd (get_rates \<lparr>force_decimal = True\<rparr>
          (answering (ok_response
             (PyDict [(''rates'',
                PyDict [(''EUR'', Num (PyFloat (FFin False 7656119366529843 (- 53)))),
                        (''JPY'', Num (PyInt 110))])])
             (PyDict [(''rates'',
                PyDict [(''EUR'', Num (PyDecimal (DFin False 85 (- 2)))),
                        (''JPY'', Num (PyInt 110))])])))
          ''USD'' None)
     = Inr (PyDict [(''EUR'', Num (PyDecimal (DFin False 85 (- 2)))), (''JPY'', Num (PyInt 110))])"
proof -
  let ?req = "\<lparr>url = source_url @ ''latest'',
                params = [(''base'', ''USD''), (''rtype'', ''fpy'')], timeout = 60\<rparr>"
  have issued: "fst (get_rates self fetch ''USD'' None) = [?req]" for self fetch
    by (simp add: issued_request_get_rates get_date_string_def)
  have answer: "answering resp ?req = Some resp" for resp
    by (simp add: answering_def)
  let ?p1 = "[(''base'', PyStr ''USD'')]"
  let ?f2 = "PyDict [(''rates'',
                PyDict [(''EUR'', Num (PyFloat (FFin False 7656119366529843 (- 53)))),
                        (''JPY'', Num (PyInt 110))])]"
  let ?p2 = "[(''rates'',
                PyDict [(''EUR'', Num (PyDecimal (DFin False 85 (- 2)))),
                        (''JPY'', Num (PyInt 110))])]"
  have 1: "snd (get_rates \<lparr>force_decimal = False\<rparr>
                 (answering (ok_response (PyDict ?p1) (PyDict ?p1))) ''USD'' None)
             = Inr (PyDict [])"
    using get_rates_extracts_rates [where self = "\<lparr>force_decimal = False\<rparr>"
        and use_decimal = False
        and fetch = "answering (ok_response (PyDict ?p1) (PyDict ?p1))" and base_cur = "''USD''"
        and date_obj = None and req = ?req
        and resp = "ok_response (PyDict ?p1) (PyDict ?p1)" and payload = ?p1]
      issued answer
    by (simp add: ok_response_def)
  have 2: "snd (get_rates \<lparr>force_decimal = True\<rparr> (answering (ok_response ?f2 (PyDict ?p2)))
                 ''USD'' None)
     = Inr (PyDict [(''EUR'', Num (PyDecimal (DFin False 85 (- 2)))), (''JPY'', Num (PyInt 110))])"
    using get_rates_extracts_rates [where self = "\<lparr>force_decimal = True\<rparr>"
        and use_decimal = False
        and fetch = "answering (ok_response ?f2 (PyDict ?p2))" and base_cur = "''USD''"
        and date_obj = None and req = ?req
        and resp = "ok_response ?f2 (PyDict ?p2)" and payload = ?p2]
      issued answer
    by (simp add: ok_response_def)
  from 1 2 show ?thesis by blast
qed

subsection \<open>Representation and mismatch in \<open>convert\<close>\<close>

lemma multiply_TypeError:
  "py_mul rate a = Inl TypeError \<Longrightarrow> multiply rate a = Inl DecimalFloatMismatchError"
  by (simp add: multiply_def)

text \<open>
  Claim C5. \<open>convert\<close> reads the rate from the decoding with \<open>use_decimal\<close> when the amount
  is a \<open>Decimal\<close> or the client was built with \<open>force_decimal\<close>, and from the plain
  decoding otherwise. With a rate that is true, its result is that of the product
  \<open>rate * amount\<close>, except that a \<open>TypeError\<close> of the product becomes
  \<open>DecimalFloatMismatchError\<close> and nothing is returned; this is what happens to a \<open>Decimal\<close>
  rate and a \<open>float\<close> amount.
\<close>

theorem convert_representation_and_mismatch:
  assumes "base_cur \<noteq> dest_cur"
    and "fst (convert self fetch base_cur dest_cur amount date_obj) = [req]"
    and "fetch req = Some resp" and "status_code resp = 200"
    and "(if isinstance_Decimal (amount_value amount) \<or> force_decimal self
          then loads_use_decimal resp else json resp) = Inr decoded_data"
    and "py_get decoded_data ''rates'' (PyDict []) = Inr rates"
    and "py_get rates dest_cur PyNone = Inr rate"
    and "truthy rate"
  shows "get_decoded_rate self resp dest_cur
           (if isinstance_Decimal (amount_value amount) then True else force_decimal self)
           (Some (get_date_string date_obj)) = Inr rate
       \<and> snd (convert self fetch base_cur dest_cur amount date_obj) =
           (case py_mul rate amount of
              Inl err \<Rightarrow> Inl (if err = TypeError then DecimalFloatMismatchError else err)
            | Inr converted_amount \<Rightarrow> Inr converted_amount)
       \<and> (py_mul rate amount = Inl TypeError \<longrightarrow>
            snd (convert self fetch base_cur dest_cur amount date_obj) =
              Inl DecimalFloatMismatchError)
       \<and> ((\<exists>d. rate = Num (PyDecimal d)) \<and> (\<exists>x. amount = FloatAmount x) \<longrightarrow>
            snd (convert self fetch base_cur dest_cur amount date_obj) =
              Inl DecimalFloatMismatchError)"
proof -
  let ?ud = "isinstance_Decimal (amount_value amount) \<or> force_decimal self"
  have "(if force_decimal self \<or> ?ud then loads_use_decimal resp else json resp) = Inr decoded_data"
    using assms(5) by (simp add: disj_commute split: if_splits)
  then have dec: "get_decoded_rate self resp dest_cur ?ud (Some (get_date_string date_obj)) = Inr rate"
    using assms(6,7) by (simp add: get_decoded_rate_def decode_rates_def)
  have conv: "snd (convert self fetch base_cur dest_cur amount date_obj) = multiply rate amount"
    using convert_on_ok [OF assms(1-4)] dec assms(8) by simp
  have 2: "snd (convert self fetch base_cur dest_cur amount date_obj) =
           (case py_mul rate amount of
              Inl err \<Rightarrow> Inl (if err = TypeError then DecimalFloatMismatchError else err)
            | Inr converted_amount \<Rightarrow> Inr converted_amount)"
    unfolding conv multiply_def by (simp split: sum.splits error.splits)
  have 3: "py_mul rate amount = Inl TypeError \<longrightarrow>
            snd (convert self fetch base_cur dest_cur amount date_obj) =
              Inl DecimalFloatMismatchError"
    unfolding conv by (simp add: multiply_TypeError)
  have 4: "(\<exists>d. rate = Num (PyDecimal d)) \<and> (\<exists>x. amount = FloatAmount x) \<longrightarrow>
            snd (convert self fetch base_cur dest_cur amount date_obj) =
              Inl DecimalFloatMismatchError"
    using 3 by auto
  have 1: "get_decoded_rate self resp dest_cur
           (if isinstance_Decimal (amount_value amount) then True else force_decimal self)
           (Some (get_date_string date_obj)) = Inr rate"
    using dec by (cases "isinstance_Decimal (amount_value amount)") simp_all
  from 1 2 3 4 show ?thesis by blast
qed

theorem convert_representation_and_mismatch_witness:
  "snd (convert \<lparr>force_decimal = True\<rparr>
          (answering (ok_response
             (PyDict [(''rates'',
                PyDict [(''EUR'', Num (PyFloat (FFin False 7656119366529843 (- 53))))])])
             (PyDict [(''rates'', PyDict [(''EUR'', Num (PyDecimal (DFin False 85 (- 2))))])])))
          ''USD'' ''EUR'' (FloatAmount (FFin False 3 (- 1))) None)
     = Inl DecimalFloatMismatchError"
proof -
  let ?req = "\<lparr>url = source_url @ ''latest'',
                params = [(''base'', ''USD''), (''symbols'', ''EUR''), (''rtype'', ''fpy'')],
                timeout = 60\<rparr>"
  let ?plain = "PyDict [(''rates'',
                PyDict [(''EUR'', Num (PyFloat (FFin False 7656119366529843 (- 53))))])]"
  let ?exact = "PyDict [(''rates'', PyDict [(''EUR'', Num (PyDecimal (DFin False 85 (- 2))))])]"
  let ?resp = "ok_response ?plain ?exact"
  let ?self = "\<lparr>force_decimal = True\<rparr>"
  let ?amount = "FloatAmount (FFin False 3 (- 1))"
  have ne: "''USD'' \<noteq> ''EUR''" by simp
  have issued: "fst (convert ?self (answering ?resp) ''USD'' ''EUR'' ?amount None) = [?req]"
    by (simp add: issued_request_convert get_date_string_def)
  have answer: "answering ?resp ?req = Some ?resp"
    by (simp add: answering_def)
  have ok: "status_code ?resp = 200" by (simp add: ok_response_def)
  have decoded: "(if isinstance_Decimal (amount_value ?amount) \<or> force_decimal ?self
          then loads_use_decimal ?resp else json ?resp) = Inr ?exact"
    by (simp add: ok_response_def)
  have rates: "py_get ?exact ''rates'' (PyDict []) =
                 Inr (PyDict [(''EUR'', Num (PyDecimal (DFin False 85 (- 2))))])"
    by simp
  have rate: "py_get (PyDict [(''EUR'', Num (PyDecimal (DFin False 85 (- 2))))]) ''EUR'' PyNone =
                Inr (Num (PyDecimal (DFin False 85 (- 2))))"
    by simp
  have true: "truthy (Num (PyDecimal (DFin False 85 (- 2))))" by simp
  show ?thesis
    using convert_representation_and_mismatch [OF ne issued answer ok decoded rates rate true]
    by simp
qed

subsection \<open>Which operation raises which exception\<close>

lemma get_rates_errors:
  "snd (get_rates self fetch base_cur date_obj) = Inl err \<Longrightarrow>
   err = RatesNotAvailableError \<or> err = TransportError \<or> (\<exists>name. err = DecoderRaised name)
     \<or> err = AttributeError"
  using decode_rates_errors [of self _ False _ err]
  by (auto simp: get_rates_def Let_def split: option.splits if_splits)

lemma get_rate_errors:
  "snd (get_rate self fetch base_cur dest_cur date_obj) = Inl err \<Longrightarrow>
   err = RatesNotAvailableError \<or> err = TransportError \<or> (\<exists>name. err = DecoderRaised name)
     \<or> err = AttributeError"
  using get_decoded_rate_errors [of self _ dest_cur False _ err]
  by (auto simp: get_rate_def Let_def split: option.splits if_splits sum.splits)

lemma next_item_errors:
  "next_item key wanted table = Inl err \<Longrightarrow> err = KeyError"
  by (induction table) (auto split: option.splits if_splits)

lemma field_of_errors:
  "field_of field r = Inl err \<Longrightarrow> r = Inl err"
  by (cases "(field, r)" rule: field_of.cases) (auto split: if_splits)

text \<open>
  Claim C10. Whatever their arguments and whatever the transport does, \<open>get_rates\<close> and
  \<open>get_rate\<close> do not raise \<open>DecimalFloatMismatchError\<close>: of the two exceptions of the module
  they raise \<open>RatesNotAvailableError\<close> only. \<open>convert\<close> does raise it on some input, and the
  lookups of the directory do not either.
\<close>

theorem mismatch_error_only_from_convert:
  "snd (get_rates self fetch base_cur date_obj) \<noteq> Inl DecimalFloatMismatchError
   \<and> snd (get_rate self fetch base_cur dest_cur date_obj) \<noteq> Inl DecimalFloatMismatchError
   \<and> fst (get_symbol file codes currency_code) \<noteq> Inl DecimalFloatMismatchError
   \<and> fst (get_currency_name file codes currency_code) \<noteq> Inl DecimalFloatMismatchError
   \<and> fst (get_currency_code_from_symbol file codes symbol) \<noteq> Inl DecimalFloatMismatchError
   \<and> snd (convert \<lparr>force_decimal = True\<rparr>
          (answering (ok_response
             (PyDict [(''rates'',
                PyDict [(''EUR'', Num (PyFloat (FFin False 7656119366529843 (- 53))))])])
             (PyDict [(''rates'', PyDict [(''EUR'', Num (PyDecimal (DFin False 85 (- 2))))])])))
          ''USD'' ''EUR'' (FloatAmount (FFin False 3 (- 1))) None)
       = Inl DecimalFloatMismatchError"
proof -
  have 1: "snd (get_rates self fetch base_cur date_obj) \<noteq> Inl DecimalFloatMismatchError"
    using get_rates_errors [of self fetch base_cur date_obj DecimalFloatMismatchError] by auto
  have 2: "snd (get_rate self fetch base_cur dest_cur date_obj) \<noteq> Inl DecimalFloatMismatchError"
    using get_rate_errors [of self fetch base_cur dest_cur date_obj DecimalFloatMismatchError]
    by auto
  have scan: "field_of field (next_item key wanted table) \<noteq> Inl DecimalFloatMismatchError"
    for field key wanted table
    using field_of_errors [of field "next_item key wanted table" DecimalFloatMismatchError]
      next_item_errors [of key wanted table DecimalFloatMismatchError]
    by auto
  have 3: "fst (get_symbol file codes currency_code) \<noteq> Inl DecimalFloatMismatchError"
    using scan by (simp add: get_symbol_def get_data_def split: prod.splits)
  have 4: "fst (get_currency_name file codes currency_code) \<noteq> Inl DecimalFloatMismatchError"
    using scan by (simp add: get_currency_name_def get_data_def split: prod.splits)
  have 5: "fst (get_currency_code_from_symbol file codes symbol) \<noteq> Inl DecimalFloatMismatchError"
    using scan
    by (simp add: get_currency_code_from_symbol_def get_data_from_symbol_def split: prod.splits)
  have 6: "snd (convert \<lparr>force_decimal = True\<rparr>
          (answering (ok_response
             (PyDict [(''rates'',
                PyDict [(''EUR'', Num (PyFloat (FFin False 7656119366529843 (- 53))))])])
             (PyDict [(''rates'', PyDict [(''EUR'', Num (PyDecimal (DFin False 85 (- 2))))])])))
          ''USD'' ''EUR'' (FloatAmount (FFin False 3 (- 1))) None)
       = Inl DecimalFloatMismatchError"
    by (simp add: convert_def get_decoded_rate_def decode_rates_def answering_def ok_response_def
        multiply_def Let_def)
  from 1 2 3 4 5 6 show ?thesis by blast
qed

theorem mismatch_error_only_from_convert_witness:
  "snd (get_rates \<lparr>force_decimal = True\<rparr> no_answer ''USD'' None)
     \<noteq> Inl DecimalFloatMismatchError
   \<and> snd (get_rate \<lparr>force_decimal = True\<rparr> no_answer ''USD'' ''EUR'' None)
     \<noteq> Inl DecimalFloatMismatchError"
  using mismatch_error_only_from_convert [of "\<lparr>force_decimal = True\<rparr>" no_answer
      "''USD''" None "''EUR''" "[]" "\<lparr>cached_currency_data = None\<rparr>" "''USD''" "''$''"]
  by blast

section \<open>The lookups of the directory\<close>

lemma next_item_first_match:
  "\<forall>item \<in> set table. has_key key item \<Longrightarrow>
   next_item key wanted table = Inr (first_match key wanted table)"
  by (induction table) (auto simp: first_match_def has_key_def)

lemma first_match_Some:
  "first_match key wanted table = Some item \<Longrightarrow>
   item \<in> set table \<and> map_of item key = Some wanted \<and> item \<noteq> []"
  by (induction table) (auto simp: first_match_def split: if_splits)

lemma field_of_first_match:
  "field_of field (Inr (first_match key wanted table)) =
     Inr (case first_match key wanted table of
            None \<Rightarrow> None
          | Some item \<Rightarrow> map_of item field)"
  using first_match_Some [of key wanted table]
  by (cases "first_match key wanted table") auto

text \<open>
  Claim C9. On a table whose items all carry the key that is scanned (\<open>cc\<close> for the lookups
  by code, \<open>symbol\<close> for the lookup by symbol), each of \<open>get_symbol\<close>, \<open>get_currency_name\<close>
  and \<open>get_currency_code_from_symbol\<close> returns the requested field of the first item of the
  table that matches, and \<open>None\<close>, without an exception, when no item matches. The table is
  the one the directory holds, read from the file on the first access.
\<close>

theorem lookups_return_first_match:
  assumes "table = fst (currency_data file codes)"
    and "\<forall>item \<in> set table. has_key ''cc'' item \<and> has_key ''symbol'' item"
  shows "fst (get_symbol file codes currency_code) =
           Inr (case first_match ''cc'' currency_code table of
                  None \<Rightarrow> None | Some item \<Rightarrow> map_of item ''symbol'')
       \<and> fst (get_currency_name file codes currency_code) =
           Inr (case first_match ''cc'' currency_code table of
                  None \<Rightarrow> None | Some item \<Rightarrow> map_of item ''name'')
       \<and> fst (get_currency_code_from_symbol file codes symbol) =
           Inr (case first_match ''symbol'' symbol table of
                  None \<Rightarrow> None | Some item \<Rightarrow> map_of item ''cc'')
       \<and> (first_match ''cc'' currency_code table = None \<longrightarrow>
            fst (get_symbol file codes currency_code) = Inr None
            \<and> fst (get_currency_name file codes currency_code) = Inr None)
       \<and> (first_match ''symbol'' symbol table = None \<longrightarrow>
            fst (get_currency_code_from_symbol file codes symbol) = Inr None)"
proof -
  have cc: "next_item ''cc'' currency_code table = Inr (first_match ''cc'' currency_code table)"
    using assms(2) by (intro next_item_first_match) simp
  have sy: "next_item ''symbol'' symbol table = Inr (first_match ''symbol'' symbol table)"
    using assms(2) by (intro next_item_first_match) simp
  have 1: "fst (get_symbol file codes currency_code) =
           Inr (case first_match ''cc'' currency_code table of
                  None \<Rightarrow> None | Some item \<Rightarrow> map_of item ''symbol'')"
    using cc assms(1) field_of_first_match [of "''symbol''" "''cc''" currency_code table]
    by (simp add: get_symbol_def get_data_def case_prod_beta)
  have 2: "fst (get_currency_name file codes currency_code) =
           Inr (case first_match ''cc'' currency_code table of
                  None \<Rightarrow> None | Some item \<Rightarrow> map_of item ''name'')"
    using cc assms(1) field_of_first_match [of "''name''" "''cc''" currency_code table]
    by (simp add: get_currency_name_def get_data_def case_prod_beta)
  have 3: "fst (get_currency_code_from_symbol file codes symbol) =
           Inr (case first_match ''symbol'' symbol table of
                  None \<Rightarrow> None | Some item \<Rightarrow> map_of item ''cc'')"
    using sy assms(1) field_of_first_match [of "''cc''" "''symbol''" symbol table]
    by (simp add: get_currency_code_from_symbol_def get_data_from_symbol_def case_prod_beta)
  from 1 2 3 show ?thesis by simp
qed

theorem lookups_return_first_match_witness:
  "fst (get_symbol [[(''cc'', ''USD''), (''symbol'', ''$''), (''name'', ''US Dollar'')]]
          \<lparr>cached_currency_data = None\<rparr> ''USD'') = Inr (Some ''$'')
   \<and> fst (get_symbol [[(''cc'', ''USD''), (''symbol'', ''$''), (''name'', ''US Dollar'')]]
          \<lparr>cached_currency_data = None\<rparr> ''ZZZ'') = Inr None
   \<and> fst (get_currency_name [[(''cc'', ''USD''), (''symbol'', ''$''), (''name'', ''US Dollar'')]]
          \<lparr>cached_currency_data = None\<rparr> ''USD'') = Inr (Some ''US Dollar'')
   \<and> fst (get_currency_code_from_symbol
          [[(''cc'', ''USD''), (''symbol'', ''$''), (''name'', ''US Dollar'')]]
          \<lparr>cached_currency_data = None\<rparr> ''$'') = Inr (Some ''USD'')"
proof -
  let ?file = "[[(''cc'', ''USD''), (''symbol'', ''$''), (''name'', ''US Dollar'')]]"
  let ?codes = "\<lparr>cached_currency_data = None\<rparr>"
  have t: "?file = fst (currency_data ?file ?codes)" by (simp add: currency_data_def)
  have k: "\<forall>item \<in> set ?file. has_key ''cc'' item \<and> has_key ''symbol'' item"
    by (simp add: has_key_def)
  show ?thesis
    using lookups_return_first_match [OF t k, of "''USD''" "''$''"]
      lookups_return_first_match [OF t k, of "''ZZZ''" "''$''"]
    by (simp add: first_match_def)
qed

section \<open>The request\<close>

subsection \<open>The date token\<close>

lemma digit_value_digit_char: "digit_value (digit_char n) = Some (n mod 10)"
proof -
  define k where "k = n mod 10"
  have "k < 10" by (simp add: k_def)
  then have "k = 0 \<or> k = 1 \<or> k = 2 \<or> k = 3 \<or> k = 4 \<or> k = 5 \<or> k = 6 \<or> k = 7 \<or> k = 8
      \<or> k = 9"
    by arith
  then have "digit_value (''0123456789'' ! k) = Some k"
    by (auto simp: digit_value_def)
  then show ?thesis
    by (simp add: digit_char_def k_def)
qed

lemma read_digits_snoc:
  "read_digits acc (cs @ [c]) =
     (case read_digits acc cs of
        None \<Rightarrow> None
      | Some a \<Rightarrow> (case digit_value c of None \<Rightarrow> None | Some v \<Rightarrow> Some (10 * a + v)))"
  by (induction cs arbitrary: acc) (auto split: option.splits)

lemma read_zero_padded: "n < 10 ^ w \<Longrightarrow> read_digits 0 (zero_padded w n) = Some n"
proof (induction w arbitrary: n)
  case 0
  then show ?case by simp
next
  case (Suc w)
  then have "n div 10 < 10 ^ w" by (simp add: less_mult_imp_div_less mult.commute)
  then have "read_digits 0 (zero_padded w (n div 10)) = Some (n div 10)" by (rule Suc.IH)
  then show ?case
    by (simp add: read_digits_snoc digit_value_digit_char)
qed

lemma zero_padded_2: "zero_padded 2 n = [digit_char (n div 10 mod 10), digit_char (n mod 10)]"
  by (simp add: numeral_2_eq_2)

lemma zero_padded_3:
  "zero_padded 3 n =
     [digit_char (n div 10 div 10 mod 10), digit_char (n div 10 mod 10), digit_char (n mod 10)]"
  by (simp add: numeral_3_eq_3)

lemma zero_padded_4:
  "zero_padded 4 n =
     [digit_char (n div 10 div 10 div 10 mod 10), digit_char (n div 10 div 10 mod 10),
      digit_char (n div 10 mod 10), digit_char (n mod 10)]"
proof -
  have "zero_padded (Suc (Suc (Suc (Suc 0)))) n =
     [digit_char (n div 10 div 10 div 10 mod 10), digit_char (n div 10 div 10 mod 10),
      digit_char (n div 10 mod 10), digit_char (n mod 10)]"
    by simp
  moreover have "(4::nat) = Suc (Suc (Suc (Suc 0)))" by simp
  ultimately show ?thesis by (simp only:)
qed

lemma length_zero_padded: "length (zero_padded w n) = w"
  by (induction w arbitrary: n) auto

lemma ndigits_bounds: "0 < n \<Longrightarrow> 10 ^ (ndigits n - 1) \<le> n \<and> n < 10 ^ ndigits n"
  using floorlog_bounds [of n 10] by (simp add: ndigits_def)

lemma ndigits_4: "1000 \<le> n \<Longrightarrow> n \<le> 9999 \<Longrightarrow> ndigits n = 4"
proof -
  assume lo: "1000 \<le> n" and hi: "n \<le> 9999"
  have "floorlog 10 n \<le> 4" using hi by (simp add: floorlog_le_iff)
  moreover have "4 \<le> floorlog 10 n" using lo by (intro floorlog_geI) simp_all
  ultimately show ?thesis using lo by (simp add: ndigits_def)
qed

lemma strftime_Ymd_shape:
  assumes "valid_date d" and "k = ndigits (year d)"
  shows "10 ^ (k - 1) \<le> year d" and "year d < 10 ^ k"
    and "length (strftime_Ymd d) = k + 6"
    and "strftime_Ymd d ! k = CHR ''-''" and "strftime_Ymd d ! (k + 3) = CHR ''-''"
    and "read_digits 0 (take k (strftime_Ymd d)) = Some (year d)"
    and "read_digits 0 (take 2 (drop (k + 1) (strftime_Ymd d))) = Some (month d)"
    and "read_digits 0 (drop (k + 4) (strftime_Ymd d)) = Some (day d)"
proof -
  have pos: "0 < year d" and m: "month d < 10 ^ 2" and dd: "day d < 10 ^ 2"
    using assms(1) by (simp_all add: valid_date_def)
  show y1: "10 ^ (k - 1) \<le> year d" and y: "year d < 10 ^ k"
    using ndigits_bounds [OF pos] assms(2) by simp_all
  have len: "length (decimal_numeral (year d)) = k"
    by (simp add: decimal_numeral_def length_zero_padded assms(2))
  have rd: "read_digits 0 (decimal_numeral (year d)) = Some (year d)"
    using read_zero_padded [OF y] by (simp add: decimal_numeral_def assms(2))
  show "length (strftime_Ymd d) = k + 6"
    by (simp add: strftime_Ymd_def len length_zero_padded)
  show "strftime_Ymd d ! k = CHR ''-''"
    by (simp add: strftime_Ymd_def nth_append len)
  show "strftime_Ymd d ! (k + 3) = CHR ''-''"
    by (simp add: strftime_Ymd_def nth_append len length_zero_padded)
  show "read_digits 0 (take k (strftime_Ymd d)) = Some (year d)"
    using rd by (simp add: strftime_Ymd_def len)
  show "read_digits 0 (take 2 (drop (k + 1) (strftime_Ymd d))) = Some (month d)"
    using read_zero_padded [OF m] by (simp add: strftime_Ymd_def len length_zero_padded)
  show "read_digits 0 (drop (k + 4) (strftime_Ymd d)) = Some (day d)"
    using read_zero_padded [OF dd] by (simp add: strftime_Ymd_def len length_zero_padded)
qed

subsection \<open>How the request is built\<close>

text \<open>
  Claim C8, as stated, fails on the date token: a year before 1000 is written without
  zeros in front, so that the token of the second of March 999 is \<open>999-03-02\<close>, of nine
  characters, and not of the layout \<open>YYYY-MM-DD\<close>.
\<close>

theorem date_token_counterexample:
  "valid_date \<lparr>year = 999, month = 3, day = 2\<rparr>
   \<and> get_date_string (Some \<lparr>year = 999, month = 3, day = 2\<rparr>) = ''999-03-02''
   \<and> length (get_date_string (Some \<lparr>year = 999, month = 3, day = 2\<rparr>)) = 9
   \<and> fst (get_rates \<lparr>force_decimal = False\<rparr> no_answer ''USD''
            (Some \<lparr>year = 999, month = 3, day = 2\<rparr>)) =
       [\<lparr>url = ''https://theforexapi.com/api/999-03-02'',
         params = [(''base'', ''USD''), (''rtype'', ''fpy'')], timeout = 60\<rparr>]"
proof -
  have n: "ndigits 999 = 3" by (simp add: ndigits_def compute_floorlog)
  have tok: "get_date_string (Some \<lparr>year = 999, month = 3, day = 2\<rparr>) = ''999-03-02''"
    by (simp add: get_date_string_def strftime_Ymd_def decimal_numeral_def n zero_padded_2
        zero_padded_3 digit_char_def)
  show ?thesis
    by (simp add: tok valid_date_def issued_request_get_rates source_url_def)
qed

text \<open>
  Claim C8, amended. The request of a rate operation has as address the root of the source
  followed by the date token. The token is \<open>latest\<close> without a date; with one it is the year
  in decimal without zeros in front, a hyphen, the month on two digits, a hyphen and the
  day on two digits, which is the layout \<open>YYYY-MM-DD\<close> for every date from the year 1000
  on. The parameters are the base under \<open>base\<close>, then for \<open>get_rate\<close> and \<open>convert\<close> the
  destination under \<open>symbols\<close> (\<open>get_rates\<close> has none), and the fixed selector
  \<open>rtype = fpy\<close>. \<open>get_rates\<close> sends exactly this request; \<open>get_rate\<close> and \<open>convert\<close> send it
  unless base and destination are equal, where they send nothing.
\<close>

theorem request_construction:
  "fst (get_rates self fetch base_cur date_obj) =
     [\<lparr>url = ''https://theforexapi.com/api/'' @ get_date_string date_obj,
       params = [(''base'', base_cur), (''rtype'', ''fpy'')],
       timeout = 60\<rparr>]
   \<and> fst (get_rate self fetch base_cur dest_cur date_obj) =
     (if base_cur = dest_cur then []
      else [\<lparr>url = ''https://theforexapi.com/api/'' @ get_date_string date_obj,
             params = [(''base'', base_cur), (''symbols'', dest_cur), (''rtype'', ''fpy'')],
             timeout = 60\<rparr>])
   \<and> fst (convert self fetch base_cur dest_cur amount date_obj) =
     (if base_cur = dest_cur then []
      else [\<lparr>url = ''https://theforexapi.com/api/'' @ get_date_string date_obj,
             params = [(''base'', base_cur), (''symbols'', dest_cur), (''rtype'', ''fpy'')],
             timeout = 60\<rparr>])
   \<and> get_date_string None = ''latest''
   \<and> (\<forall>d. valid_date d \<longrightarrow>
         (\<exists>k. 10 ^ (k - 1) \<le> year d \<and> year d < 10 ^ k
            \<and> length (get_date_string (Some d)) = k + 6
            \<and> get_date_string (Some d) ! k = CHR ''-''
            \<and> get_date_string (Some d) ! (k + 3) = CHR ''-''
            \<and> read_digits 0 (take k (get_date_string (Some d))) = Some (year d)
            \<and> read_digits 0 (take 2 (drop (k + 1) (get_date_string (Some d)))) = Some (month d)
            \<and> read_digits 0 (drop (k + 4) (get_date_string (Some d))) = Some (day d)))
   \<and> (\<forall>d. valid_date d \<and> 1000 \<le> year d \<longrightarrow>
         length (get_date_string (Some d)) = 10
         \<and> get_date_string (Some d) ! 4 = CHR ''-''
         \<and> get_date_string (Some d) ! 7 = CHR ''-''
         \<and> read_digits 0 (take 4 (get_date_string (Some d))) = Some (year d)
         \<and> read_digits 0 (take 2 (drop 5 (get_date_string (Some d)))) = Some (month d)
         \<and> read_digits 0 (drop 8 (get_date_string (Some d))) = Some (day d))"
proof -
  have 1: "fst (get_rates self fetch base_cur date_obj) =
     [\<lparr>url = ''https://theforexapi.com/api/'' @ get_date_string date_obj,
       params = [(''base'', base_cur), (''rtype'', ''fpy'')],
       timeout = 60\<rparr>]"
    using issued_request_get_rates [of self fetch base_cur date_obj]
    by (simp add: source_url_def)
  have 2: "fst (get_rate self fetch base_cur dest_cur date_obj) =
     (if base_cur = dest_cur then []
      else [\<lparr>url = ''https://theforexapi.com/api/'' @ get_date_string date_obj,
             params = [(''base'', base_cur), (''symbols'', dest_cur), (''rtype'', ''fpy'')],
             timeout = 60\<rparr>])"
    using issued_request_get_rate [of base_cur dest_cur self fetch date_obj]
    by (simp add: source_url_def) (simp add: get_rate_def)
  have 3: "fst (convert self fetch base_cur dest_cur amount date_obj) =
     (if base_cur = dest_cur then []
      else [\<lparr>url = ''https://theforexapi.com/api/'' @ get_date_string date_obj,
             params = [(''base'', base_cur), (''symbols'', dest_cur), (''rtype'', ''fpy'')],
             timeout = 60\<rparr>])"
    using issued_request_convert [of base_cur dest_cur self fetch amount date_obj]
    by (simp add: source_url_def) (simp add: convert_def Let_def)
  have 4: "get_date_string None = ''latest''"
    by (simp add: get_date_string_def)
  have 5: "\<forall>d. valid_date d \<longrightarrow>
         (\<exists>k. 10 ^ (k - 1) \<le> year d \<and> year d < 10 ^ k
            \<and> length (get_date_string (Some d)) = k + 6
            \<and> get_date_string (Some d) ! k = CHR ''-''
            \<and> get_date_string (Some d) ! (k + 3) = CHR ''-''
            \<and> read_digits 0 (take k (get_date_string (Some d))) = Some (year d)
            \<and> read_digits 0 (take 2 (drop (k + 1) (get_date_string (Some d)))) = Some (month d)
            \<and> read_digits 0 (drop (k + 4) (get_date_string (Some d))) = Some (day d))"
  proof (intro allI impI)
    fix d assume v: "valid_date d"
    show "\<exists>k. 10 ^ (k - 1) \<le> year d \<and> year d < 10 ^ k
            \<and> length (get_date_string (Some d)) = k + 6
            \<and> get_date_string (Some d) ! k = CHR ''-''
            \<and> get_date_string (Some d) ! (k + 3) = CHR ''-''
            \<and> read_digits 0 (take k (get_date_string (Some d))) = Some (year d)
            \<and> read_digits 0 (take 2 (drop (k + 1) (get_date_string (Some d)))) = Some (month d)
            \<and> read_digits 0 (drop (k + 4) (get_date_string (Some d))) = Some (day d)"
      using strftime_Ymd_shape [OF v refl]
      by (intro exI [of _ "ndigits (year d)"]) (simp add: get_date_string_def)
  qed
  have 6: "\<forall>d. valid_date d \<and> 1000 \<le> year d \<longrightarrow>
         length (get_date_string (Some d)) = 10
         \<and> get_date_string (Some d) ! 4 = CHR ''-''
         \<and> get_date_string (Some d) ! 7 = CHR ''-''
         \<and> read_digits 0 (take 4 (get_date_string (Some d))) = Some (year d)
         \<and> read_digits 0 (take 2 (drop 5 (get_date_string (Some d)))) = Some (month d)
         \<and> read_digits 0 (drop 8 (get_date_string (Some d))) = Some (day d)"
  proof (intro allI impI, elim conjE)
    fix d assume v: "valid_date d" and y: "1000 \<le> year d"
    have k: "4 = ndigits (year d)"
      using ndigits_4 [OF y] v by (simp add: valid_date_def)
    show "length (get_date_string (Some d)) = 10
         \<and> get_date_string (Some d) ! 4 = CHR ''-''
         \<and> get_date_string (Some d) ! 7 = CHR ''-''
         \<and> read_digits 0 (take 4 (get_date_string (Some d))) = Some (year d)
         \<and> read_digits 0 (take 2 (drop 5 (get_date_string (Some d)))) = Some (month d)
         \<and> read_digits 0 (drop 8 (get_date_string (Some d))) = Some (day d)"
      using strftime_Ymd_shape [OF v k] by (simp add: get_date_string_def)
  qed
  from 1 2 3 4 5 6 show ?thesis by blast
qed

theorem request_construction_witness:
  "fst (get_rates \<lparr>force_decimal = False\<rparr> no_answer ''USD''
          (Some \<lparr>year = 2021, month = 3, day = 9\<rparr>)) =
     [\<lparr>url = ''https://theforexapi.com/api/2021-03-09'',
       params = [(''base'', ''USD''), (''rtype'', ''fpy'')], timeout = 60\<rparr>]
   \<and> fst (get_rate \<lparr>force_decimal = False\<rparr> no_answer ''USD'' ''EUR'' None) =
     [\<lparr>url = ''https://theforexapi.com/api/latest'',
       params = [(''base'', ''USD''), (''symbols'', ''EUR''), (''rtype'', ''fpy'')],
       timeout = 60\<rparr>]
   \<and> valid_date \<lparr>year = 2021, month = 3, day = 9\<rparr>
   \<and> read_digits 0 (take 4 (get_date_string (Some \<lparr>year = 2021, month = 3, day = 9\<rparr>)))
       = Some 2021"
proof -
  have v: "valid_date \<lparr>year = 2021, month = 3, day = 9\<rparr>"
    by (simp add: valid_date_def)
  have n: "ndigits 2021 = 4" by (simp add: ndigits_4)
  have tok: "get_date_string (Some \<lparr>year = 2021, month = 3, day = 9\<rparr>) = ''2021-03-09''"
    by (simp add: get_date_string_def strftime_Ymd_def decimal_numeral_def n zero_padded_2
        zero_padded_4 digit_char_def)
  let ?d = "\<lparr>year = 2021, month = 3, day = 9\<rparr>"
  have 1: "fst (get_rates \<lparr>force_decimal = False\<rparr> no_answer ''USD'' (Some ?d)) =
     [\<lparr>url = ''https://theforexapi.com/api/2021-03-09'',
       params = [(''base'', ''USD''), (''rtype'', ''fpy'')], timeout = 60\<rparr>]"
    using request_construction [of "\<lparr>force_decimal = False\<rparr>" no_answer "''USD''"
        "Some ?d" "''EUR''" "FloatAmount (FFin False 1 0)"]
    by (simp add: tok)
  have 2: "fst (get_rate \<lparr>force_decimal = False\<rparr> no_answer ''USD'' ''EUR'' None) =
     [\<lparr>url = ''https://theforexapi.com/api/latest'',
       params = [(''base'', ''USD''), (''symbols'', ''EUR''), (''rtype'', ''fpy'')],
       timeout = 60\<rparr>]"
    using request_construction [of "\<lparr>force_decimal = False\<rparr>" no_answer "''USD''"
        None "''EUR''" "FloatAmount (FFin False 1 0)"]
    by simp
  have "\<forall>d. valid_date d \<and> 1000 \<le> year d \<longrightarrow>
          read_digits 0 (take 4 (get_date_string (Some d))) = Some (year d)"
    using request_construction [of "\<lparr>force_decimal = False\<rparr>" no_answer "''USD''"
        None "''EUR''" "FloatAmount (FFin False 1 0)"]
    by blast
  then have 3: "read_digits 0 (take 4 (get_date_string (Some ?d))) = Some 2021"
    using v by fastforce
  from 1 2 v 3 show ?thesis by blast
qed

section \<open>Exact conversions and products\<close>

subsection \<open>Powers with integer exponents\<close>


lemma pow10_power_int: "pow10 e = power_int 10 e"
  by (simp add: pow10_def power_int_def field_simps)

lemma pow10_add: "pow10 (e + f) = pow10 e * pow10 f"
  by (simp add: pow10_power_int power_int_add)

subsection \<open>\<open>Decimal(x)\<close> of a float is exact\<close>




subsection \<open>Base and destination equal in \<open>convert\<close>\<close>



subsection \<open>The product of two decimals\<close>

lemma ndigits_le: "c < 10 ^ n \<Longrightarrow> 0 < n \<Longrightarrow> ndigits c \<le> n"
  by (simp add: ndigits_def floorlog_le_iff)

lemma Etop_le_Emax: "Etop \<le> Emax"
  by (simp add: Etop_def prec_def)

lemma dec_fix_exact:
  assumes "c < 10 ^ 28" and "Etiny \<le> e" and "e \<le> Etop"
  shows "dec_fix s c e = Inr (DFin s c e)"
proof (cases "c = 0")
  case True
  then show ?thesis
    using assms(2,3) Etop_le_Emax by (simp add: dec_fix_def)
next
  case False
  have "int (ndigits c) \<le> prec"
    using ndigits_le [OF assms(1)] by (simp add: prec_def)
  then show ?thesis
    using False assms(2,3) by (simp add: dec_fix_def Let_def)
qed

lemmas dec_eval = dec_fix_def ndigits_def compute_floorlog prec_def Etop_def Etiny_def Emax_def
  Emin_def Let_def

lemma dec_mul_31_digits:
  "dec_mul (DFin False 1000000000000001 (- 15)) (DFin False 1000000000000001 (- 15)) =
     Inr (DFin False 1000000000000002000000000000 (- 27))"
  by (simp add: dec_eval)

lemma dec_fix_errors: "dec_fix s c e = Inl err \<Longrightarrow> err = DecimalOverflow"
  by (simp add: dec_fix_def Let_def split: if_splits)

lemma dec_mul_errors:
  "dec_mul a b = Inl err \<Longrightarrow> err = DecimalOverflow \<or> err = DecimalInvalidOperation"
  by (cases "(a, b)" rule: dec_mul.cases) (auto split: if_splits dest: dec_fix_errors)

lemma convert_decimal_rate:
  assumes "base_cur \<noteq> dest_cur"
    and "fst (convert self fetch base_cur dest_cur (DecimalAmount a) date_obj) = [req]"
    and "fetch req = Some resp" and "status_code resp = 200"
    and "loads_use_decimal resp = Inr (PyDict payload)"
    and "rate_entry payload dest_cur = Some (Num (PyDecimal (DFin s c e)))"
    and "c \<noteq> 0"
  shows "snd (convert self fetch base_cur dest_cur (DecimalAmount a) date_obj) =
           lift_num (lift_decimal (dec_mul (DFin s c e) a))"
proof -
  from assms(6) obtain rates where r: "map_of payload ''rates'' = Some (PyDict rates)"
    by (auto split: option.splits pyval.splits)
  have "get_decoded_rate self resp dest_cur True (Some (get_date_string date_obj)) =
          Inr (Num (PyDecimal (DFin s c e)))"
    using get_decoded_rate_entry [of self True resp payload dest_cur] assms(5,6) r by simp
  then have "snd (convert self fetch base_cur dest_cur (DecimalAmount a) date_obj) =
               multiply (Num (PyDecimal (DFin s c e))) (DecimalAmount a)"
    using convert_on_ok [OF assms(1-4)] assms(7) by simp
  then show ?thesis
    using dec_mul_errors [of "DFin s c e" a]
    by (cases "dec_mul (DFin s c e) a") (auto simp: multiply_def)
qed

text \<open>
  Claim C6, as stated, fails: the product of two decimals is rounded to the 28 significant
  digits of the default context. With rate and amount both \<open>1.000000000000001\<close> the exact
  product has 31 digits, and \<open>convert\<close> returns \<open>1.000000000000002000000000000\<close>.
\<close>

theorem decimal_product_counterexample:
  "snd (convert \<lparr>force_decimal = False\<rparr>
          (answering (ok_response
             (PyDict [(''rates'',
                PyDict [(''EUR'', Num (PyFloat (FFin False 4503599627370501 (- 52))))])])
             (PyDict [(''rates'',
                PyDict [(''EUR'', Num (PyDecimal (DFin False 1000000000000001 (- 15))))])])))
          ''USD'' ''EUR'' (DecimalAmount (DFin False 1000000000000001 (- 15))) None)
     = Inr (Num (PyDecimal (DFin False 1000000000000002000000000000 (- 27))))
   \<and> dec_val (DFin False 1000000000000001 (- 15)) = Finite (1000000000000001 / 10 ^ 15)
   \<and> dec_val (DFin False 1000000000000002000000000000 (- 27))
       \<noteq> Finite (1000000000000001 / 10 ^ 15 * (1000000000000001 / 10 ^ 15))"
proof -
  let ?req = "\<lparr>url = source_url @ ''latest'',
                params = [(''base'', ''USD''), (''symbols'', ''EUR''), (''rtype'', ''fpy'')],
                timeout = 60\<rparr>"
  let ?plain = "PyDict [(''rates'',
                PyDict [(''EUR'', Num (PyFloat (FFin False 4503599627370501 (- 52))))])]"
  let ?payload = "[(''rates'',
                PyDict [(''EUR'', Num (PyDecimal (DFin False 1000000000000001 (- 15))))])]"
  let ?resp = "ok_response ?plain (PyDict ?payload)"
  let ?self = "\<lparr>force_decimal = False\<rparr>"
  let ?a = "DFin False 1000000000000001 (- 15)"
  have ne: "''USD'' \<noteq> ''EUR''" by simp
  have issued: "fst (convert ?self (answering ?resp) ''USD'' ''EUR'' (DecimalAmount ?a) None)
                  = [?req]"
    by (simp add: issued_request_convert get_date_string_def)
  have answer: "answering ?resp ?req = Some ?resp"
    by (simp add: answering_def)
  have ok: "status_code ?resp = 200" "loads_use_decimal ?resp = Inr (PyDict ?payload)"
    by (simp_all add: ok_response_def)
  have entry: "rate_entry ?payload ''EUR'' = Some (Num (PyDecimal ?a))"
    by simp
  have nz: "(1000000000000001::nat) \<noteq> 0" by simp
  have 1: "snd (convert ?self (answering ?resp) ''USD'' ''EUR'' (DecimalAmount ?a) None)
     = Inr (Num (PyDecimal (DFin False 1000000000000002000000000000 (- 27))))"
    using convert_decimal_rate [OF ne issued answer ok(1) ok(2) entry nz]
    by (simp only: dec_mul_31_digits lift_decimal.simps lift_num.simps)
  have 2: "dec_val ?a = Finite (1000000000000001 / 10 ^ 15)"
    by (simp add: signed_def pow10_def)
  have 3: "dec_val (DFin False 1000000000000002000000000000 (- 27))
       \<noteq> Finite (1000000000000001 / 10 ^ 15 * (1000000000000001 / 10 ^ 15))"
    by (simp add: signed_def pow10_def)
  from 1 2 3 show ?thesis by blast
qed

text \<open>
  Claim C6, amended. When the amount is a finite \<open>Decimal\<close> and the rate decoded for the
  destination is a finite \<open>Decimal\<close> other than zero, \<open>convert\<close> returns their exact
  product, of coefficient the product of the two coefficients and of exponent the sum of
  the two exponents, whenever that coefficient has at most 28 digits and that exponent lies
  between \<open>Etiny\<close> and \<open>Etop\<close>, the bounds \<open>-1000026\<close> and \<open>999972\<close> of the default context.
  With the decoded rate \<open>Decimal("0.85")\<close> and the amount \<open>Decimal("10")\<close> the result is
  \<open>Decimal("8.50")\<close>.
\<close>

theorem convert_decimal_product:
  assumes "base_cur \<noteq> dest_cur"
    and "fst (convert self fetch base_cur dest_cur (DecimalAmount (DFin t d f)) date_obj) = [req]"
    and "fetch req = Some resp" and "status_code resp = 200"
    and "loads_use_decimal resp = Inr (PyDict payload)"
    and "rate_entry payload dest_cur = Some (Num (PyDecimal (DFin s c e)))"
    and "c \<noteq> 0"
    and "c * d < 10 ^ 28" and "Etiny \<le> e + f" and "e + f \<le> Etop"
  shows "snd (convert self fetch base_cur dest_cur (DecimalAmount (DFin t d f)) date_obj) =
           Inr (Num (PyDecimal (DFin (s \<noteq> t) (c * d) (e + f))))
       \<and> dec_val (DFin (s \<noteq> t) (c * d) (e + f)) =
           Finite (signed s (of_nat c * pow10 e) * signed t (of_nat d * pow10 f))
       \<and> Etiny = - 1000026 \<and> Etop = 999972"
proof -
  have "dec_mul (DFin s c e) (DFin t d f) = Inr (DFin (s \<noteq> t) (c * d) (e + f))"
    using dec_fix_exact [OF assms(8-10)] by simp
  then have 1: "snd (convert self fetch base_cur dest_cur (DecimalAmount (DFin t d f)) date_obj) =
           Inr (Num (PyDecimal (DFin (s \<noteq> t) (c * d) (e + f))))"
    using convert_decimal_rate [OF assms(1-7)] by simp
  have 2: "dec_val (DFin (s \<noteq> t) (c * d) (e + f)) =
           Finite (signed s (of_nat c * pow10 e) * signed t (of_nat d * pow10 f))"
    by (simp add: signed_def pow10_add)
  have 3: "Etiny = - 1000026 \<and> Etop = 999972"
    by (simp add: Etiny_def Etop_def Emin_def Emax_def prec_def)
  from 1 2 3 show ?thesis by blast
qed

theorem convert_decimal_product_witness:
  "snd (convert \<lparr>force_decimal = False\<rparr>
          (answering (ok_response
             (PyDict [(''rates'',
                PyDict [(''EUR'', Num (PyFloat (FFin False 7656119366529843 (- 53))))])])
             (PyDict [(''rates'', PyDict [(''EUR'', Num (PyDecimal (DFin False 85 (- 2))))])])))
          ''USD'' ''EUR'' (DecimalAmount (DFin False 10 0)) None)
     = Inr (Num (PyDecimal (DFin False 850 (- 2))))"
proof -
  let ?req = "\<lparr>url = source_url @ ''latest'',
                params = [(''base'', ''USD''), (''symbols'', ''EUR''), (''rtype'', ''fpy'')],
                timeout = 60\<rparr>"
  let ?plain = "PyDict [(''rates'',
                PyDict [(''EUR'', Num (PyFloat (FFin False 7656119366529843 (- 53))))])]"
  let ?payload = "[(''rates'', PyDict [(''EUR'', Num (PyDecimal (DFin False 85 (- 2))))])]"
  let ?resp = "ok_response ?plain (PyDict ?payload)"
  let ?self = "\<lparr>force_decimal = False\<rparr>"
  have ne: "''USD'' \<noteq> ''EUR''" by simp
  have issued: "fst (convert ?self (answering ?resp) ''USD'' ''EUR''
                  (DecimalAmount (DFin False 10 0)) None) = [?req]"
    by (simp add: issued_request_convert get_date_string_def)
  have answer: "answering ?resp ?req = Some ?resp"
    by (simp add: answering_def)
  have ok: "status_code ?resp = 200" "loads_use_decimal ?resp = Inr (PyDict ?payload)"
    by (simp_all add: ok_response_def)
  have entry: "rate_entry ?payload ''EUR'' = Some (Num (PyDecimal (DFin False 85 (- 2))))"
    by simp
  have nz: "(85::nat) \<noteq> 0" by simp
  have small: "(85::nat) * 10 < 10 ^ 28" by simp
  have lo: "Etiny \<le> - 2 + 0" by (simp add: Etiny_def Emin_def prec_def)
  have hi: "(- 2::int) + 0 \<le> Etop" by (simp add: Etop_def Emax_def prec_def)
  show ?thesis
    using convert_decimal_product [OF ne issued answer ok(1) ok(2) entry nz small lo hi]
    by simp
qed

end
